theory Spec2Isabelle
  imports Main
begin

section \<open>Python values\<close>

text \<open>
  The document analyser is Python. The values it moves around are the values of decoded
  JSON: \<open>None\<close>, booleans, integers, floats, strings, lists and dictionaries. A float is
  kept as a mantissa and a binary exponent (or infinity, or NaN): only its truth value is
  ever inspected. A dictionary is an association list in insertion order whose keys are
  pairwise different.
\<close>

datatype pyfloat = Finite int int | Infinite bool | NaN

datatype pyval =
    PNone
  | PBool bool
  | PInt int
  | PFloat pyfloat
  | PStr string
  | PList "pyval list"
  | PDict "(pyval \<times> pyval) list"

text \<open>The exceptions the modelled code can raise; \<open>Inl\<close> of a result carries one.\<close>

datatype error =
    ValueError string
  | NameError string
  | AttributeError string string
  | TypeError string
  | ZeroDivisionError
  | JSONDecodeError
  | EvidenceStoreError string

text \<open>Python's truth value of an object, as \<open>if x\<close>, \<open>x or y\<close> and \<open>not x\<close> read it.\<close>

fun truthy :: "pyval \<Rightarrow> bool" where
  "truthy PNone = False"
| "truthy (PBool b) = b"
| "truthy (PInt i) = (i \<noteq> 0)"
| "truthy (PFloat (Finite m e)) = (m \<noteq> 0)"
| "truthy (PFloat (Infinite s)) = True"
| "truthy (PFloat NaN) = True"
| "truthy (PStr s) = (s \<noteq> [])"
| "truthy (PList vs) = (vs \<noteq> [])"
| "truthy (PDict kvs) = (kvs \<noteq> [])"

text \<open>\<open>x or y\<close>: the first operand when it is truthy, else the second.\<close>

definition py_or :: "pyval \<Rightarrow> pyval \<Rightarrow> pyval" where
  "py_or x y = (if truthy x then x else y)"

text \<open>\<open>type(x).__name__\<close>, as it appears in the message of an AttributeError.\<close>

fun type_name :: "pyval \<Rightarrow> string" where
  "type_name PNone = ''NoneType''"
| "type_name (PBool b) = ''bool''"
| "type_name (PInt i) = ''int''"
| "type_name (PFloat f) = ''float''"
| "type_name (PStr s) = ''str''"
| "type_name (PList vs) = ''list''"
| "type_name (PDict kvs) = ''dict''"

text \<open>Lists and dictionaries are unhashable: using one as a dictionary key raises TypeError.\<close>

fun hashable :: "pyval \<Rightarrow> bool" where
  "hashable (PList vs) = False"
| "hashable (PDict kvs) = False"
| "hashable v = True"

text \<open>\<open>d.get(k)\<close> on a dictionary's items: the value stored under the key, else \<open>None\<close>.\<close>

definition dict_get :: "(pyval \<times> pyval) list \<Rightarrow> string \<Rightarrow> pyval" where
  "dict_get kvs k = (case map_of kvs (PStr k) of None \<Rightarrow> PNone | Some v \<Rightarrow> v)"

text \<open>\<open>x.get(k)\<close> on any value: only a dictionary has the method.\<close>

definition py_get :: "pyval \<Rightarrow> string \<Rightarrow> error + pyval" where
  "py_get x k =
     (case x of
        PDict kvs \<Rightarrow> Inr (dict_get kvs k)
      | _ \<Rightarrow> Inl (AttributeError (type_name x) ''get''))"

text \<open>\<open>d[k] = v\<close>: an existing key keeps its position and takes the new value.\<close>

fun dict_setitem :: "(pyval \<times> pyval) list \<Rightarrow> pyval \<Rightarrow> pyval \<Rightarrow> (pyval \<times> pyval) list" where
  "dict_setitem [] k v = [(k, v)]"
| "dict_setitem ((k', v') # kvs) k v =
     (if k' = k then (k, v) # kvs else (k', v') # dict_setitem kvs k v)"

text \<open>
  A dictionary display \<open>{k1: v1, k2: v2, ...}\<close>: the entries are inserted from left to
  right, a repeated key overwrites, an unhashable key raises TypeError.
\<close>

fun dict_display :: "(pyval \<times> pyval) list \<Rightarrow> (pyval \<times> pyval) list \<Rightarrow> error + pyval" where
  "dict_display acc [] = Inr (PDict acc)"
| "dict_display acc ((k, v) # entries) =
     (if hashable k then dict_display (dict_setitem acc k v) entries
      else Inl (TypeError (''unhashable type: '' @ type_name k)))"

subsection \<open>Strings\<close>

text \<open>
  A character is read as a code point below 256. \<open>str.strip()\<close> removes the white space
  of \<open>str.isspace\<close> at both ends, \<open>str.lower()\<close> maps A-Z and the upper-case letters of
  Latin-1 to lower case.
\<close>

definition py_isspace :: "char \<Rightarrow> bool" where
  "py_isspace c =
     (c \<in> set [CHR 0x09, CHR 0x0A, CHR 0x0B, CHR 0x0C, CHR 0x0D, CHR 0x1C, CHR 0x1D,
                CHR 0x1E, CHR 0x1F, CHR 0x20, CHR 0x85, CHR 0xA0])"

definition py_strip :: "string \<Rightarrow> string" where
  "py_strip s = rev (dropWhile py_isspace (rev (dropWhile py_isspace s)))"

definition upper_case_chars :: string where
  "upper_case_chars =
     ''ABCDEFGHIJKLMNOPQRSTUVWXYZ''
     @ [CHR 0xC0, CHR 0xC1, CHR 0xC2, CHR 0xC3, CHR 0xC4, CHR 0xC5, CHR 0xC6, CHR 0xC7,
        CHR 0xC8, CHR 0xC9, CHR 0xCA, CHR 0xCB, CHR 0xCC, CHR 0xCD, CHR 0xCE, CHR 0xCF,
        CHR 0xD0, CHR 0xD1, CHR 0xD2, CHR 0xD3, CHR 0xD4, CHR 0xD5, CHR 0xD6, CHR 0xD8,
        CHR 0xD9, CHR 0xDA, CHR 0xDB, CHR 0xDC, CHR 0xDD, CHR 0xDE]"

definition lower_case_chars :: string where
  "lower_case_chars =
     ''abcdefghijklmnopqrstuvwxyz''
     @ [CHR 0xE0, CHR 0xE1, CHR 0xE2, CHR 0xE3, CHR 0xE4, CHR 0xE5, CHR 0xE6, CHR 0xE7,
        CHR 0xE8, CHR 0xE9, CHR 0xEA, CHR 0xEB, CHR 0xEC, CHR 0xED, CHR 0xEE, CHR 0xEF,
        CHR 0xF0, CHR 0xF1, CHR 0xF2, CHR 0xF3, CHR 0xF4, CHR 0xF5, CHR 0xF6, CHR 0xF8,
        CHR 0xF9, CHR 0xFA, CHR 0xFB, CHR 0xFC, CHR 0xFD, CHR 0xFE]"

definition py_lower_char :: "char \<Rightarrow> char" where
  "py_lower_char c =
     (case map_of (zip upper_case_chars lower_case_chars) c of None \<Rightarrow> c | Some l \<Rightarrow> l)"

definition py_lower :: "string \<Rightarrow> string" where
  "py_lower s = map py_lower_char s"

text \<open>\<open>sep.join(parts)\<close>.\<close>

fun py_join :: "string \<Rightarrow> string list \<Rightarrow> string" where
  "py_join sep [] = []"
| "py_join sep [p] = p"
| "py_join sep (p # q # ps) = p @ sep @ py_join sep (q # ps)"

text \<open>\<open>s.lstrip(".")\<close> and \<open>s.rstrip("/")\<close>.\<close>

definition lstrip_chars :: "char \<Rightarrow> string \<Rightarrow> string" where
  "lstrip_chars c s = dropWhile (\<lambda>x. x = c) s"

definition rstrip_chars :: "char \<Rightarrow> string \<Rightarrow> string" where
  "rstrip_chars c s = rev (dropWhile (\<lambda>x. x = c) (rev s))"

text \<open>The decimal text of an integer, as an f-string prints it.\<close>

fun digits_of :: "nat \<Rightarrow> string" where
  "digits_of n =
     (if n < 10 then [''0123456789'' ! n]
      else digits_of (n div 10) @ [''0123456789'' ! (n mod 10)])"

declare digits_of.simps [simp del]

definition str_int :: "int \<Rightarrow> string" where
  "str_int i = (if i < 0 then CHR ''-'' # digits_of (nat (- i)) else digits_of (nat i))"

subsection \<open>The platform\<close>

text \<open>
  What the standard library and the clock supply is a parameter of the model:
  \<^item> \<open>json_loads\<close> is \<open>json.loads\<close>; \<open>None\<close> stands for a raised \<open>JSONDecodeError\<close>;
  \<^item> \<open>py_str\<close> is \<open>str()\<close> of a value that is not a string (the text an f-string puts
    in the place of a number, a list or a dictionary);
  \<^item> \<open>uuid4\<close> and \<open>utc_now\<close> give the identifier and the ISO time stamp of the n-th
    payload built.
\<close>

record platform =
  json_loads :: "string \<Rightarrow> pyval option"
  py_str :: "pyval \<Rightarrow> string"
  uuid4 :: "nat \<Rightarrow> string"
  utc_now :: "nat \<Rightarrow> string"

text \<open>The replacement field \<open>{x}\<close> of an f-string: a string stands for itself.\<close>

definition fmt :: "platform \<Rightarrow> pyval \<Rightarrow> string" where
  "fmt plat v = (case v of PStr s \<Rightarrow> s | _ \<Rightarrow> py_str plat v)"

section \<open>prompts.py\<close>

text \<open>One chat message, \<open>{"role": ..., "content": ...}\<close>.\<close>

record message =
  role :: string
  content :: string

text \<open>
  The names prompts.py binds at module level, each with the kind of object it is bound to:
  the \<open>__future__\<close> feature, the two typing aliases and the two functions. The module
  binds no string constant.
\<close>

datatype binding = FutureFeature | TypingAlias | FunctionObject

definition prompts_namespace :: "(string \<times> binding) list" where
  "prompts_namespace =
     [(''annotations'', FutureFeature),
      (''List'', TypingAlias),
      (''Dict'', TypingAlias),
      (''build_messages'', FunctionObject),
      (''build_requirement_messages'', FunctionObject)]"

fun binding_type_name :: "binding \<Rightarrow> string" where
  "binding_type_name FutureFeature = ''_Feature''"
| "binding_type_name TypingAlias = ''_GenericAlias''"
| "binding_type_name FunctionObject = ''function''"

text \<open>
  Reading a name that is not a local of the function searches the module's namespace
  (and then the builtins, which hold no \<open>SYSTEM_PROMPT\<close>): a name that is not bound
  raises NameError.
\<close>

definition load_global :: "string \<Rightarrow> error + binding" where
  "load_global n =
     (case map_of prompts_namespace n of None \<Rightarrow> Inl (NameError n) | Some b \<Rightarrow> Inr b)"

text \<open>
  \<open>build_messages\<close> (prompts.py, lines 6-46). The local \<open>system_prompt\<close> of line 23 is
  assigned a template and never read: line 41 assigns it again, from
  \<open>SYSTEM_PROMPT.format(max_items=max_items)\<close>, where \<open>SYSTEM_PROMPT\<close> is a global name.
  None of the objects the module binds has a \<open>format\<close> attribute, so there is no way
  through line 41 to the \<open>return\<close> of line 43.
\<close>

definition build_messages ::
  "string \<Rightarrow> string option \<Rightarrow> string option \<Rightarrow> int \<Rightarrow> error + message list" where
  "build_messages document_text source_name focus max_items =
     (let context_name = (case source_name of None \<Rightarrow> ''document''
                          | Some n \<Rightarrow> if n = [] then ''document'' else n);
          user_instructions0 = ''Source: '' @ context_name @ ''.\<newline>\<newline>'';
          user_instructions1 =
            (case focus of
               None \<Rightarrow> user_instructions0
             | Some f \<Rightarrow> if f = [] then user_instructions0
                         else user_instructions0 @ ''Focus areas provided by user: '' @ f
                              @ ''\<newline>\<newline>'');
          user_instructions = user_instructions1
            @ ''Extract evidence and return the JSON object described in the system message.\<newline>''
            @ ''Only include claims supported by the text.''
      in case load_global ''SYSTEM_PROMPT'' of
           Inl e \<Rightarrow> Inl e
         | Inr b \<Rightarrow> Inl (AttributeError (binding_type_name b) ''format''))"

text \<open>
  The \<open>requirement\<close> argument of \<open>build_requirement_messages\<close> carries no type: the
  function reads attributes with \<open>getattr\<close>. An object is its class name and its
  attributes.
\<close>

record pyobject =
  class_name :: string
  attrs :: "(string \<times> pyval) list"

text \<open>\<open>getattr(obj, name, default)\<close> and \<open>obj.name\<close>.\<close>

definition getattr_default :: "pyobject \<Rightarrow> string \<Rightarrow> pyval \<Rightarrow> pyval" where
  "getattr_default obj n d = (case map_of (attrs obj) n of None \<Rightarrow> d | Some v \<Rightarrow> v)"

definition getattr :: "pyobject \<Rightarrow> string \<Rightarrow> error + pyval" where
  "getattr obj n =
     (case map_of (attrs obj) n of
        None \<Rightarrow> Inl (AttributeError (class_name obj) n)
      | Some v \<Rightarrow> Inr v)"

text \<open>The fixed sentences of the requirement prompt (prompts.py, lines 65-71 and 77).\<close>

definition requirement_system_head :: string where
  \<open>requirement_system_head =
     ''You are Document-Analyser. Check if the document contains the required information.\<newline>''
     @ ''Return a JSON object (not an array) with these fields:\<newline>''\<close>

definition requirement_system_tail :: string where
  \<open>requirement_system_tail =
     ''Use camelCase keys. Do not include markdown. Set the boolean field to true if the document contains the required information, otherwise false. ''
     @ ''Snippet must be the quote/excerpt you used. ''
     @ ''Citation must be the page number (e.g., "Page 2") if available, otherwise empty. ''
     @ ''If no evidence exists, set the boolean field to false, snippet and citation to empty strings, and confidence to "low".''\<close>

text \<open>
  \<open>build_requirement_messages\<close> (prompts.py, lines 49-82). The schema hint is the
  requirement's \<open>response_schema\<close> when it has a truthy one, else a dictionary display
  whose second key is the field name; \<open>requirement.id\<close> is evaluated before
  \<open>getattr(requirement, 'name', requirement.id)\<close> is called.
\<close>

definition build_requirement_messages ::
  "platform \<Rightarrow> string \<Rightarrow> pyobject \<Rightarrow> string option \<Rightarrow> error + message list" where
  \<open>build_requirement_messages plat document_text requirement source_name =
     (let context_name = (case source_name of None \<Rightarrow> ''document''
                          | Some n \<Rightarrow> if n = [] then ''document'' else n);
          field_name = py_or (getattr_default requirement ''response_field_name'' PNone)
                             (PStr ''requirementMet'');
          response_schema = getattr_default requirement ''response_schema'' PNone
      in case (if truthy response_schema then Inr response_schema
               else case getattr requirement ''id'' of
                      Inl e \<Rightarrow> Inl e
                    | Inr rid \<Rightarrow>
                        dict_display []
                          [(PStr ''requirementId'', rid),
                           (field_name, PBool True),
                           (PStr ''snippet'',
                            PStr ''Verbatim quote or text excerpt proving the requirement''),
                           (PStr ''citation'',
                            PStr ''Page number, e.g., 'Page 3' (empty if unknown)''),
                           (PStr ''confidence'', PStr ''high|medium|low'')]) of
           Inl e \<Rightarrow> Inl e
         | Inr schema_hint \<Rightarrow>
             (let system_prompt = requirement_system_head @ fmt plat schema_hint
                                  @ ''\<newline>'' @ requirement_system_tail
              in case getattr requirement ''id'' of
                   Inl e \<Rightarrow> Inl e
                 | Inr rid \<Rightarrow>
                     (case getattr requirement ''prompt'' of
                        Inl e \<Rightarrow> Inl e
                      | Inr instruction \<Rightarrow>
                          (let user_prompt =
                                 ''Source: '' @ context_name @ ''.\<newline>''
                                 @ ''Requirement: ''
                                 @ fmt plat (getattr_default requirement ''name'' rid)
                                 @ '' ('' @ fmt plat rid @ '').\<newline>''
                                 @ ''Instruction: '' @ fmt plat instruction
                                 @ ''\<newline>\<newline>''
                                 @ ''Return only the JSON object.''
                           in Inr [\<lparr>role = ''system'', content = system_prompt\<rparr>,
                                   \<lparr>role = ''user'',
                                    content = user_prompt @ ''\<newline>\<newline>''
                                              @ document_text\<rparr>]))))\<close>

section \<open>requirements.py\<close>

text \<open>The frozen dataclass \<open>RequirementPrompt\<close>; \<open>rq_id\<close> and \<open>rq_name\<close> are its \<open>id\<close> and \<open>name\<close>.\<close>

record requirement_prompt =
  rq_id :: string
  rq_name :: string
  rq_prompt :: string
  resource_type :: string
  response_field_name :: "string option"

text \<open>A \<open>RequirementPrompt\<close> as the object the prompt builder reads attributes of.\<close>

definition requirement_object :: "requirement_prompt \<Rightarrow> pyobject" where
  "requirement_object r =
     \<lparr>class_name = ''RequirementPrompt'',
      attrs = [(''id'', PStr (rq_id r)),
               (''name'', PStr (rq_name r)),
               (''prompt'', PStr (rq_prompt r)),
               (''resource_type'', PStr (resource_type r)),
               (''response_field_name'',
                case response_field_name r of None \<Rightarrow> PNone | Some n \<Rightarrow> PStr n)]\<rparr>"

section \<open>loaders.py\<close>

text \<open>
  A \<open>pathlib.Path\<close> is used through \<open>str(path)\<close>, \<open>path.name\<close> and \<open>path.suffix\<close> only.
\<close>

record pypath =
  path_str :: string
  path_name :: string
  path_suffix :: string

record document =
  doc_path :: pypath
  doc_content :: string

definition doc_name :: "document \<Rightarrow> string" where
  "doc_name d = path_name (doc_path d)"

definition concatenate_documents :: "document list \<Rightarrow> string" where
  "concatenate_documents documents =
     py_strip (py_join ''\<newline>''
       (map (\<lambda>doc. ''### Document: '' @ doc_name doc @ ''\<newline>''
                    @ py_strip (doc_content doc) @ ''\<newline>'') documents))"

section \<open>extractor.py\<close>

record analysis_result =
  data :: pyval
  raw_response :: string
  sources :: "string list"

text \<open>
  The language-model gateway \<open>LLMClient.chat(messages, response_format="json")\<close>: given
  the messages it returns the reply text. The provider is free to answer the same
  messages differently each time, so the gateway carries a state of its own.
\<close>

type_synonym 's llm = "'s \<Rightarrow> message list \<Rightarrow> string \<times> 's"

text \<open>
  \<open>DocumentAnalyser.analyse\<close> from the reply on (extractor.py, lines 54-68): a reply that
  does not decode is replaced by the degraded dictionary, and the raw reply is kept.
\<close>

definition analyse_reply :: "platform \<Rightarrow> document list \<Rightarrow> string \<Rightarrow> analysis_result" where
  "analyse_reply plat documents reply =
     (let parsed =
            (case json_loads plat reply of
               Some v \<Rightarrow> v
             | None \<Rightarrow>
                 PDict [(PStr ''document_summary'', PStr []),
                        (PStr ''evidence'', PList []),
                        (PStr ''gaps'', PList []),
                        (PStr ''parse_error'', PStr ''Response was not valid JSON.'')]);
          srcs = map (\<lambda>doc. path_str (doc_path doc)) documents
      in \<lparr>data = parsed, raw_response = reply, sources = srcs\<rparr>)"

text \<open>\<open>DocumentAnalyser.analyse\<close> (extractor.py, lines 36-68).\<close>

definition analyse ::
  "platform \<Rightarrow> 's llm \<Rightarrow> document list \<Rightarrow> string option \<Rightarrow> int \<Rightarrow> 's
     \<Rightarrow> (error + analysis_result) \<times> 's" where
  "analyse plat chat documents focus max_items s =
     (if documents = [] then (Inl (ValueError ''No documents provided for analysis.''), s)
      else
        (let merged_text = concatenate_documents documents;
             source_name = py_join '', '' (map doc_name documents)
         in case build_messages merged_text (Some source_name) focus max_items of
              Inl e \<Rightarrow> (Inl e, s)
            | Inr messages \<Rightarrow>
                (case chat s messages of
                   (reply, s') \<Rightarrow> (Inr (analyse_reply plat documents reply), s'))))"

text \<open>The local function \<open>_parse_bool\<close> of \<open>analyse_requirements\<close> (lines 82-91).\<close>

definition parse_bool :: "pyval \<Rightarrow> bool option" where
  "parse_bool v =
     (case v of
        PBool b \<Rightarrow> Some b
      | PStr s \<Rightarrow>
          (let normalized = py_lower (py_strip s)
           in if normalized \<in> set [''true'', ''yes'', ''y'', ''1'', ''fulfilled''] then Some True
              else if normalized \<in> set [''false'', ''no'', ''n'', ''0'', ''unfulfilled'',
                                         ''not fulfilled''] then Some False
              else None)
      | _ \<Rightarrow> None)"

text \<open>
  \<open>x or y\<close> on the results of \<open>_parse_bool\<close>: \<open>True\<close> is the only truthy one, so both
  \<open>False\<close> and \<open>None\<close> on the left give the right operand.
\<close>

definition verdict_or :: "bool option \<Rightarrow> bool option \<Rightarrow> bool option" where
  "verdict_or x y = (case x of Some True \<Rightarrow> Some True | _ \<Rightarrow> y)"

text \<open>\<open>getattr(requirement, "response_field_name", None) or "requirementMet"\<close>.\<close>

definition field_name_of :: "requirement_prompt \<Rightarrow> string" where
  "field_name_of r =
     (case response_field_name r of
        None \<Rightarrow> ''requirementMet''
      | Some n \<Rightarrow> if n = [] then ''requirementMet'' else n)"

text \<open>
  The body of the loop of \<open>analyse_requirements\<close> from the reply on (lines 100-121): the
  reply is decoded (an undecodable one counts as \<open>{}\<close>), the verdict is coerced, and the
  evidence item is built. \<open>parsed.get\<close> exists on a dictionary only.
\<close>

definition requirement_item :: "platform \<Rightarrow> requirement_prompt \<Rightarrow> string \<Rightarrow> error + pyval" where
  "requirement_item plat requirement reply =
     (let parsed = (case json_loads plat reply of Some v \<Rightarrow> v | None \<Rightarrow> PDict []);
          field_name = field_name_of requirement
      in case parsed of
           PDict kvs \<Rightarrow>
             (let fulfilled0 = verdict_or (parse_bool (dict_get kvs field_name))
                                          (parse_bool (dict_get kvs ''fulfilled''));
                  fulfilled = (case fulfilled0 of None \<Rightarrow> False | Some b \<Rightarrow> b)
              in Inr (PDict
                   [(PStr ''title'', PStr (rq_name requirement)),
                    (PStr ''evidence'',
                     py_or (dict_get kvs ''statement'') (py_or (dict_get kvs ''evidence'') (PStr []))),
                    (PStr ''snippet'', py_or (dict_get kvs ''snippet'') (PStr [])),
                    (PStr ''citation'', py_or (dict_get kvs ''citation'') (PStr [])),
                    (PStr ''fulfilled'', PBool fulfilled),
                    (PStr ''responseField'', PStr field_name),
                    (PStr ''confidence'', py_or (dict_get kvs ''confidence'') (PStr ''low'')),
                    (PStr ''requirementId'', PStr (rq_id requirement)),
                    (PStr ''resourceType'', PStr (resource_type requirement))]))
         | _ \<Rightarrow> Inl (AttributeError (type_name parsed) ''get''))"

text \<open>
  The \<open>for\<close> loop of \<open>analyse_requirements\<close> (lines 93-121): one prompt, one gateway call
  and one appended item per requirement, in the order of the sequence; an exception ends
  the loop.
\<close>

fun requirements_loop ::
  "platform \<Rightarrow> 's llm \<Rightarrow> string \<Rightarrow> string \<Rightarrow> requirement_prompt list \<Rightarrow> pyval list \<Rightarrow> 's
     \<Rightarrow> (error + pyval list) \<times> 's" where
  "requirements_loop plat chat merged_text source_name [] evidence_items s =
     (Inr evidence_items, s)"
| "requirements_loop plat chat merged_text source_name (requirement # rest) evidence_items s =
     (case build_requirement_messages plat merged_text (requirement_object requirement)
             (Some source_name) of
        Inl e \<Rightarrow> (Inl e, s)
      | Inr messages \<Rightarrow>
          (case chat s messages of
             (reply, s') \<Rightarrow>
               (case requirement_item plat requirement reply of
                  Inl e \<Rightarrow> (Inl e, s')
                | Inr item \<Rightarrow>
                    requirements_loop plat chat merged_text source_name rest
                      (evidence_items @ [item]) s')))"

text \<open>\<open>DocumentAnalyser.analyse_requirements\<close> (extractor.py, lines 70-123).\<close>

definition analyse_requirements ::
  "platform \<Rightarrow> 's llm \<Rightarrow> document list \<Rightarrow> requirement_prompt list \<Rightarrow> 's
     \<Rightarrow> (error + pyval list) \<times> 's" where
  "analyse_requirements plat chat documents requirements s =
     (if documents = [] then (Inl (ValueError ''No documents provided for analysis.''), s)
      else requirements_loop plat chat (concatenate_documents documents)
             (py_join '', '' (map doc_name documents)) requirements [] s)"

section \<open>evidence_store.py\<close>

record evidence_store_config =
  base_url :: string
  token_endpoint :: string
  client_id :: string
  client_secret :: string
  tool_id :: string
  target_of_evaluation_id :: string
  evidence_path :: string

definition evidence_url :: "evidence_store_config \<Rightarrow> string" where
  "evidence_url config = rstrip_chars (CHR ''/'') (base_url config) @ evidence_path config"

text \<open>\<open>v in (None, {}, [])\<close>: the three values the pruning drops.\<close>

definition is_empty_marker :: "pyval \<Rightarrow> bool" where
  "is_empty_marker v = (v = PNone \<or> v = PDict [] \<or> v = PList [])"

text \<open>
  \<open>_strip_none\<close> (evidence_store.py, lines 60-66). The dictionary comprehension tests
  each value as it stands in the dictionary and then prunes the values it keeps; the list
  comprehension prunes each element first and tests the pruned element.
\<close>

fun strip_none :: "pyval \<Rightarrow> pyval" where
  "strip_none (PDict kvs) =
     PDict (map (\<lambda>(k, v). (k, strip_none v)) (filter (\<lambda>(k, v). \<not> is_empty_marker v) kvs))"
| "strip_none (PList vs) = PList (filter (\<lambda>v. \<not> is_empty_marker v) (map strip_none vs))"
| "strip_none v = v"

text \<open>
  The locals \<open>snippet\<close>, \<open>citation\<close> and \<open>raw\<close> of the loop body of
  \<open>build_evidence_payloads\<close> (lines 85-95), from the entries of the item.
\<close>

definition item_snippet :: "(pyval \<times> pyval) list \<Rightarrow> pyval" where
  "item_snippet kvs =
     py_or (dict_get kvs ''snippet'')
       (py_or (dict_get kvs ''citation'')
          (py_or (dict_get kvs ''evidence'')
             (py_or (dict_get kvs ''statement'') (PStr []))))"

definition item_citation :: "(pyval \<times> pyval) list \<Rightarrow> pyval" where
  "item_citation kvs = py_or (dict_get kvs ''citation'') (PStr [])"

definition item_raw :: "platform \<Rightarrow> (pyval \<times> pyval) list \<Rightarrow> pyval" where
  "item_raw plat kvs =
     (let snippet = item_snippet kvs; citation = item_citation kvs
      in if truthy citation
         then (if truthy snippet
               then PStr (fmt plat snippet @ ''\<newline>Citation: '' @ fmt plat citation)
               else PStr (''Citation: '' @ fmt plat citation))
         else snippet)"

text \<open>\<open>response_field = item.get("responseField") or "requirementMet"\<close> (line 83).\<close>

definition item_response_field :: "(pyval \<times> pyval) list \<Rightarrow> pyval" where
  "item_response_field kvs = py_or (dict_get kvs ''responseField'') (PStr ''requirementMet'')"

text \<open>
  The entries of the \<open>genericDocument\<close> display (lines 102-113), in the order written:
  the verdict is stored under the response field, between \<open>dataLocation\<close> and \<open>raw\<close>.
\<close>

definition generic_document_entries ::
  "platform \<Rightarrow> evidence_store_config \<Rightarrow> document \<Rightarrow> nat \<Rightarrow> (pyval \<times> pyval) list
     \<Rightarrow> (pyval \<times> pyval) list" where
  "generic_document_entries plat config doc idx kvs =
     [(PStr ''id'', PStr (tool_id config @ '':document:'' @ str_int (int idx))),
      (PStr ''name'', PStr (doc_name doc)),
      (PStr ''description'', py_or (dict_get kvs ''title'') (PStr ''Document evidence'')),
      (PStr ''filetype'', PStr (lstrip_chars (CHR ''.'') (path_suffix (doc_path doc)))),
      (PStr ''dataLocation'',
       PDict [(PStr ''localDataLocation'',
               PDict [(PStr ''path'', PStr (path_str (doc_path doc)))])]),
      (item_response_field kvs, dict_get kvs ''fulfilled''),
      (PStr ''raw'', item_raw plat kvs)]"

text \<open>The dictionary \<open>evidence_body\<close> (lines 96-116) around a built \<open>genericDocument\<close>.\<close>

definition evidence_body ::
  "platform \<Rightarrow> evidence_store_config \<Rightarrow> nat \<Rightarrow> pyval \<Rightarrow> pyval" where
  "evidence_body plat config idx generic_document =
     PDict
       [(PStr ''id'', PStr (uuid4 plat idx)),
        (PStr ''timestamp'', PStr (utc_now plat idx)),
        (PStr ''targetOfEvaluationId'', PStr (target_of_evaluation_id config)),
        (PStr ''toolId'', PStr (tool_id config)),
        (PStr ''resource'', PDict [(PStr ''genericDocument'', generic_document)]),
        (PStr ''experimentalRelatedResourceIds'', PList [])]"

text \<open>
  The body of the loop of \<open>build_evidence_payloads\<close> (lines 81-117) for the item at index
  \<open>idx\<close>: the document is chosen first (\<open>idx % len(documents)\<close> divides by the number of
  documents), then the item is read with \<open>item.get\<close>, then the body is built and pruned.
\<close>

definition evidence_payload ::
  "platform \<Rightarrow> evidence_store_config \<Rightarrow> document list \<Rightarrow> nat \<Rightarrow> pyval \<Rightarrow> error + pyval" where
  "evidence_payload plat config documents idx item =
     (if length documents = 0 then Inl ZeroDivisionError
      else
        (let doc = documents ! (idx mod length documents)
         in case item of
              PDict kvs \<Rightarrow>
                (case dict_display [] (generic_document_entries plat config doc idx kvs) of
                   Inl e \<Rightarrow> Inl e
                 | Inr generic_document \<Rightarrow>
                     Inr (strip_none (evidence_body plat config idx generic_document)))
            | _ \<Rightarrow> Inl (AttributeError (type_name item) ''get'')))"

text \<open>The \<open>for idx, item in enumerate(evidence_items)\<close> loop, appending to \<open>payloads\<close>.\<close>

fun payloads_loop ::
  "platform \<Rightarrow> evidence_store_config \<Rightarrow> document list \<Rightarrow> nat \<Rightarrow> pyval list \<Rightarrow> pyval list
     \<Rightarrow> error + pyval list" where
  "payloads_loop plat config documents idx [] payloads = Inr payloads"
| "payloads_loop plat config documents idx (item # rest) payloads =
     (case evidence_payload plat config documents idx item of
        Inl e \<Rightarrow> Inl e
      | Inr p \<Rightarrow> payloads_loop plat config documents (Suc idx) rest (payloads @ [p]))"

text \<open>\<open>build_evidence_payloads\<close> (evidence_store.py, lines 69-119).\<close>

definition build_evidence_payloads ::
  "platform \<Rightarrow> analysis_result \<Rightarrow> document list \<Rightarrow> evidence_store_config \<Rightarrow> error + pyval list" where
  "build_evidence_payloads plat result documents config =
     (case py_get (data result) ''evidence'' of
        Inl e \<Rightarrow> Inl e
      | Inr ev \<Rightarrow>
          (case py_or ev (PList []) of
             PList evidence_items \<Rightarrow> payloads_loop plat config documents 0 evidence_items []
           | _ \<Rightarrow> Inr []))"

subsection \<open>The store client\<close>

text \<open>
  The HTTP requests the client makes through its \<open>httpx.Client\<close>: the token request (URL,
  form data, basic-auth pair) and the evidence submission (URL, JSON payload, headers).
\<close>

datatype http_request =
    PostForm string "(string \<times> string) list" "string \<times> string"
  | PostJson string pyval "(string \<times> string) list"

text \<open>
  A response is its status, its text and its decoded body (\<open>None\<close> when \<open>response.json()\<close>
  raises). A request ends in a response or in an \<open>httpx.HTTPError\<close> with its message.
\<close>

record http_response =
  status_code :: int
  response_text :: string
  response_json :: "pyval option"

datatype http_outcome = HTTPError string | Response http_response

text \<open>The remote side: what a request yields, given the requests made before it.\<close>

type_synonym transport = "http_request list \<Rightarrow> http_request \<Rightarrow> http_outcome"

text \<open>
  \<open>EvidenceStoreClient\<close>: its configuration, its cached token (\<open>None\<close> at first) and the
  requests it has issued so far, oldest first.
\<close>

record evidence_store_client =
  config :: evidence_store_config
  token :: pyval
  requests :: "http_request list"

definition new_client :: "evidence_store_config \<Rightarrow> evidence_store_client" where
  "new_client cfg = \<lparr>config = cfg, token = PNone, requests = []\<rparr>"

text \<open>\<open>self._client.post(...)\<close>: the request is issued and recorded.\<close>

definition post :: "transport \<Rightarrow> evidence_store_client \<Rightarrow> http_request
     \<Rightarrow> http_outcome \<times> evidence_store_client" where
  "post remote c req = (remote (requests c) req, c\<lparr>requests := requests c @ [req]\<rparr>)"

definition token_request :: "evidence_store_config \<Rightarrow> http_request" where
  "token_request cfg =
     PostForm (token_endpoint cfg) [(''grant_type'', ''client_credentials'')]
       (client_id cfg, client_secret cfg)"

text \<open>\<open>EvidenceStoreClient._get_token\<close> (evidence_store.py, lines 151-175).\<close>

definition get_token :: "platform \<Rightarrow> transport \<Rightarrow> evidence_store_client
     \<Rightarrow> (error + pyval) \<times> evidence_store_client" where
  "get_token plat remote c =
     (if truthy (token c) then (Inr (token c), c)
      else
        (case post remote c (token_request (config c)) of
           (HTTPError exc, c1) \<Rightarrow>
             (Inl (EvidenceStoreError (''OAuth token request failed: '' @ exc)), c1)
         | (Response response, c1) \<Rightarrow>
             (if status_code response \<ge> 400
              then (Inl (EvidenceStoreError (''OAuth token request failed: ''
                           @ str_int (status_code response) @ '' '' @ response_text response)), c1)
              else
                (case response_json response of
                   None \<Rightarrow> (Inl JSONDecodeError, c1)
                 | Some (PDict kvs) \<Rightarrow>
                     (let tok = dict_get kvs ''access_token''
                      in if \<not> truthy tok
                         then (Inl (EvidenceStoreError
                                 ''OAuth token response missing access_token.''), c1)
                         else (Inr tok, c1\<lparr>token := tok\<rparr>))
                 | Some v \<Rightarrow> (Inl (AttributeError (type_name v) ''get''), c1)))))"

definition evidence_request :: "platform \<Rightarrow> evidence_store_config \<Rightarrow> pyval \<Rightarrow> pyval \<Rightarrow> http_request" where
  "evidence_request plat cfg payload tok =
     PostJson (evidence_url cfg) payload [(''Authorization'', ''Bearer '' @ fmt plat tok)]"

text \<open>\<open>EvidenceStoreClient.send_evidence\<close> (evidence_store.py, lines 177-197).\<close>

definition send_evidence :: "platform \<Rightarrow> transport \<Rightarrow> evidence_store_client \<Rightarrow> pyval
     \<Rightarrow> (error + pyval) \<times> evidence_store_client" where
  "send_evidence plat remote c payload =
     (case get_token plat remote c of
        (Inl e, c1) \<Rightarrow> (Inl e, c1)
      | (Inr tok, c1) \<Rightarrow>
          (case post remote c1 (evidence_request plat (config c1) payload tok) of
             (HTTPError exc, c2) \<Rightarrow>
               (Inl (EvidenceStoreError (''Failed to send evidence to ''
                       @ evidence_url (config c2) @ '': '' @ exc)), c2)
           | (Response response, c2) \<Rightarrow>
               (if status_code response \<ge> 400
                then (Inl (EvidenceStoreError (''Evidence store rejected payload (''
                             @ str_int (status_code response) @ '') at ''
                             @ evidence_url (config c2) @ '': '' @ response_text response)), c2)
                else if status_code response = 204 then (Inr (PDict []), c2)
                else (case response_json response of
                        None \<Rightarrow> (Inl JSONDecodeError, c2)
                      | Some v \<Rightarrow> (Inr v, c2)))))"

section \<open>Notions the properties are stated with\<close>

text \<open>Reading a decoded JSON document along a path of keys.\<close>

fun lookup_path :: "pyval \<Rightarrow> string list \<Rightarrow> pyval option" where
  "lookup_path v [] = Some v"
| "lookup_path (PDict kvs) (k # ks) =
     (case map_of kvs (PStr k) of None \<Rightarrow> None | Some v \<Rightarrow> lookup_path v ks)"
| "lookup_path v (k # ks) = None"

text \<open>
  A value is fully pruned when no dictionary entry and no list element, at any depth, is
  \<open>None\<close>, an empty dictionary or an empty list.
\<close>

fun fully_pruned :: "pyval \<Rightarrow> bool" where
  "fully_pruned (PDict kvs) = list_all (\<lambda>(k, v). \<not> is_empty_marker v \<and> fully_pruned v) kvs"
| "fully_pruned (PList vs) = list_all (\<lambda>v. \<not> is_empty_marker v \<and> fully_pruned v) vs"
| "fully_pruned v = True"

text \<open>
  An evidence item the payload builder can read: a dictionary whose response field (the
  key the verdict is stored under) is hashable.
\<close>

definition readable_item :: "pyval \<Rightarrow> bool" where
  "readable_item item =
     (case item of PDict kvs \<Rightarrow> hashable (item_response_field kvs) | _ \<Rightarrow> False)"

text \<open>A reply that either does not decode or decodes to a JSON object.\<close>

definition object_or_undecodable :: "platform \<Rightarrow> string \<Rightarrow> bool" where
  "object_or_undecodable plat reply =
     (case json_loads plat reply of None \<Rightarrow> True | Some (PDict kvs) \<Rightarrow> True | Some v \<Rightarrow> False)"

text \<open>
  The outcomes of the token request that yield no token are of two kinds. The request is
  rejected: a transport failure, a status of 400 or more, or a body that is a JSON object
  with no (or a falsy) \<open>access_token\<close>. Or the response is unreadable: its status is
  below 400 and its body is not JSON, or is JSON but not an object. Every other outcome is
  a response below 400 whose body is an object with a truthy \<open>access_token\<close>.
\<close>

definition token_request_rejected :: "http_outcome \<Rightarrow> bool" where
  "token_request_rejected outcome =
     (case outcome of
        HTTPError exc \<Rightarrow> True
      | Response response \<Rightarrow>
          (if status_code response \<ge> 400 then True
           else (case response_json response of
                   None \<Rightarrow> False
                 | Some (PDict kvs) \<Rightarrow> \<not> truthy (dict_get kvs ''access_token'')
                 | Some v \<Rightarrow> False)))"

definition token_response_unreadable :: "http_outcome \<Rightarrow> bool" where
  "token_response_unreadable outcome =
     (case outcome of
        HTTPError exc \<Rightarrow> False
      | Response response \<Rightarrow>
          (if status_code response \<ge> 400 then False
           else (case response_json response of
                   None \<Rightarrow> True
                 | Some (PDict kvs) \<Rightarrow> False
                 | Some v \<Rightarrow> True)))"

section \<open>Concrete inputs\<close>

text \<open>
  A small platform for running the model on concrete inputs: a decoder that knows four
  reply texts (every other text counts as undecodable), a \<open>str()\<close> for scalars, and
  numbered identifiers.
\<close>

definition reply_conflicting_verdicts :: string where
  \<open>reply_conflicting_verdicts = ''{"securityBaseline": false, "fulfilled": true}''\<close>

definition reply_nested_snippet :: string where
  \<open>reply_nested_snippet = ''{"securityBaseline": "Yes", "snippet": {"quote": null}}''\<close>

definition sample_loads :: "string \<Rightarrow> pyval option" where
  "sample_loads t =
     (if t = ''{}'' then Some (PDict [])
      else if t = ''[]'' then Some (PList [])
      else if t = reply_conflicting_verdicts
        then Some (PDict [(PStr ''securityBaseline'', PBool False), (PStr ''fulfilled'', PBool True)])
      else if t = reply_nested_snippet
        then Some (PDict [(PStr ''securityBaseline'', PStr ''Yes''),
                          (PStr ''snippet'', PDict [(PStr ''quote'', PNone)])])
      else None)"

fun sample_str :: "pyval \<Rightarrow> string" where
  "sample_str PNone = ''None''"
| "sample_str (PBool b) = (if b then ''True'' else ''False'')"
| "sample_str (PInt i) = str_int i"
| "sample_str v = ''<'' @ type_name v @ ''>''"

definition sample_platform :: platform where
  "sample_platform =
     \<lparr>json_loads = sample_loads,
      py_str = sample_str,
      uuid4 = (\<lambda>n. ''uuid-'' @ str_int (int n)),
      utc_now = (\<lambda>n. ''2024-01-01T00:00:00+00:00'')\<rparr>"

text \<open>A gateway that answers from a script of replies, one per call.\<close>

fun scripted :: "string list llm" where
  "scripted [] messages = ([], [])"
| "scripted (reply # rest) messages = (reply, rest)"

text \<open>A gateway that gives the same reply to every call and counts the calls.\<close>

definition fixed_reply :: "string \<Rightarrow> nat llm" where
  "fixed_reply reply n messages = (reply, Suc n)"

definition policy_txt :: document where
  "policy_txt =
     \<lparr>doc_path = \<lparr>path_str = ''policy.txt'', path_name = ''policy.txt'', path_suffix = ''.txt''\<rparr>,
      doc_content = ''All stored data is encrypted.''\<rparr>"

definition report_pdf :: document where
  "report_pdf =
     \<lparr>doc_path = \<lparr>path_str = ''out/report.pdf'', path_name = ''report.pdf'',
                  path_suffix = ''.pdf''\<rparr>,
      doc_content = ''[Page 1]\<newline>Penetration test report.''\<rparr>"

text \<open>Two entries of the catalogue \<open>REQUIREMENTS\<close> (requirements.py): X.1.1.11 and X.1.1.1.\<close>

definition requirement_E3 :: requirement_prompt where
  "requirement_E3 =
     \<lparr>rq_id = ''E3'',
      rq_name = ''Products with digital elements shall be designed, developed and produced to limit attack surfaces, including external interfaces;'',
      rq_prompt = ''Security baseline established: defining minimum security requirements and configurations to limit attack surfaces, including external interfaces.'',
      resource_type = ''genericDocument'',
      response_field_name = Some ''securityBaseline''\<rparr>"

definition requirement_E45 :: requirement_prompt where
  "requirement_E45 =
     \<lparr>rq_id = ''E45'',
      rq_name = ''Products with digital elements shall be designed, developed and produced in such a way that they ensure an appropriate level of cybersecurity based on the risks'',
      rq_prompt = [],
      resource_type = ''genericDocument'',
      response_field_name = Some ''cybersecurityRiskManagement''\<rparr>"

definition sample_config :: evidence_store_config where
  "sample_config =
     \<lparr>base_url = ''http://localhost:8080/'',
      token_endpoint = ''http://localhost:8080/v1/auth/token'',
      client_id = ''clouditor'',
      client_secret = ''clouditor'',
      tool_id = ''document-analyser'',
      target_of_evaluation_id = ''00000000-0000-0000-0000-000000000000'',
      evidence_path = ''/v1/evidence_store/evidence''\<rparr>"

text \<open>
  The analysis result \<open>EvidenceExtractor.extract\<close> wraps around a list of evidence items
  (pipeline.py, lines 44-48), for one source.
\<close>

definition result_of_items :: "pyval list \<Rightarrow> analysis_result" where
  "result_of_items evidence_items =
     \<lparr>data = PDict [(PStr ''document_summary'', PStr []),
                     (PStr ''evidence'', PList evidence_items),
                     (PStr ''gaps'', PList [])],
      raw_response = [],
      sources = [''policy.txt'']\<rparr>"

text \<open>
  An evidence item as \<open>analyse_requirements\<close> builds it for the requirement E3, with the
  given title, evidence text, snippet and citation.
\<close>

definition evidence_item_entries ::
  "string \<Rightarrow> pyval \<Rightarrow> pyval \<Rightarrow> pyval \<Rightarrow> (pyval \<times> pyval) list" where
  "evidence_item_entries title evidence snippet citation =
     [(PStr ''title'', PStr title),
      (PStr ''evidence'', evidence),
      (PStr ''snippet'', snippet),
      (PStr ''citation'', citation),
      (PStr ''fulfilled'', PBool True),
      (PStr ''responseField'', PStr ''securityBaseline''),
      (PStr ''confidence'', PStr ''low''),
      (PStr ''requirementId'', PStr ''E3''),
      (PStr ''resourceType'', PStr ''genericDocument'')]"

definition evidence_item :: "string \<Rightarrow> pyval \<Rightarrow> pyval \<Rightarrow> pyval \<Rightarrow> pyval" where
  "evidence_item title evidence snippet citation =
     PDict (evidence_item_entries title evidence snippet citation)"

text \<open>
  Three remote sides: one whose token endpoint answers 401, one that issues the token
  \<open>t0k3n\<close> and accepts evidence with 204, and one whose token response has no
  \<open>access_token\<close>.
\<close>

definition remote_unauthorized :: transport where
  "remote_unauthorized history req =
     Response \<lparr>status_code = 401, response_text = ''unauthorized'', response_json = None\<rparr>"

definition remote_accepting :: transport where
  "remote_accepting history req =
     (case req of
        PostForm url form auth \<Rightarrow>
          Response \<lparr>status_code = 200, response_text = [],
                    response_json = Some (PDict [(PStr ''access_token'', PStr ''t0k3n'')])\<rparr>
      | PostJson url payload headers \<Rightarrow>
          Response \<lparr>status_code = 204, response_text = [], response_json = None\<rparr>)"



definition remote_list_body :: transport where
  "remote_list_body history req =
     Response \<lparr>status_code = 200, response_text = ''[]'', response_json = Some (PList [])\<rparr>"

section \<open>Properties\<close>

subsection \<open>Dictionaries and pruning\<close>

lemma map_of_dict_setitem: "map_of (dict_setitem kvs k v) = (map_of kvs)(k \<mapsto> v)"
  by (induction kvs k v rule: dict_setitem.induct) auto

lemma keys_dict_setitem: "set (map fst (dict_setitem kvs k v)) = insert k (set (map fst kvs))"
  by (induction kvs k v rule: dict_setitem.induct) auto

lemma distinct_dict_setitem:
  "distinct (map fst kvs) \<Longrightarrow> distinct (map fst (dict_setitem kvs k v))"
proof (induction kvs k v rule: dict_setitem.induct)
  case (1 k v)
  show ?case by simp
next
  case (2 k' v' kvs k v)
  have "fst ` set (dict_setitem kvs k v) = insert k (fst ` set kvs)"
    using keys_dict_setitem[of kvs k v] by simp
  with 2 show ?case by auto
qed

text \<open>A display that is built holds, for each key, the value of its last entry.\<close>

lemma dict_display_Inr:
  assumes "dict_display acc entries = Inr d" and "distinct (map fst acc)"
  shows "\<exists>kvs. d = PDict kvs \<and> distinct (map fst kvs)
           \<and> map_of kvs = fold (\<lambda>(k, v) m. m(k \<mapsto> v)) entries (map_of acc)"
  using assms
proof (induction acc entries rule: dict_display.induct)
  case (1 acc)
  then show ?case by auto
next
  case (2 acc k v entries)
  from "2.prems"(1) have h: "hashable k"
    and d: "dict_display (dict_setitem acc k v) entries = Inr d"
    by (auto split: if_splits)
  have dist: "distinct (map fst (dict_setitem acc k v))"
    using "2.prems"(2) by (rule distinct_dict_setitem)
  from "2.IH"[OF h d dist] show ?case
    by (simp add: map_of_dict_setitem)
qed

lemma dict_display_returns:
  assumes "list_all (\<lambda>(k, v). hashable k) entries"
  shows "\<exists>kvs. dict_display acc entries = Inr (PDict kvs)"
  using assms by (induction acc entries rule: dict_display.induct) auto

lemma map_of_pruned:
  assumes "distinct (map fst kvs)"
  shows "map_of (map (\<lambda>(k, v). (k, f v)) (filter (\<lambda>(k, v). P v) kvs)) k
           = (case map_of kvs k of None \<Rightarrow> None | Some v \<Rightarrow> if P v then Some (f v) else None)"
  using assms
proof (induction kvs)
  case Nil
  show ?case by simp
next
  case (Cons kv kvs)
  obtain k' v' where kv: "kv = (k', v')" by (cases kv)
  from Cons.prems kv have notin: "k' \<notin> fst ` set kvs" and dist: "distinct (map fst kvs)"
    by auto
  have none: "map_of kvs k' = None" using notin by (simp add: map_of_eq_None_iff)
  show ?case
    using Cons.IH[OF dist] kv none by (auto split: option.splits)
qed

lemma lookup_strip_dict:
  assumes "distinct (map fst kvs)"
  shows "lookup_path (strip_none (PDict kvs)) (k # ks)
           = (case map_of kvs (PStr k) of
                None \<Rightarrow> None
              | Some v \<Rightarrow> if is_empty_marker v then None else lookup_path (strip_none v) ks)"
  using map_of_pruned[OF assms, of strip_none "\<lambda>v. \<not> is_empty_marker v" "PStr k"]
  by (simp split: option.splits)

subsection \<open>The prompt builders\<close>

lemma load_global_SYSTEM_PROMPT:
  "load_global ''SYSTEM_PROMPT'' = Inl (NameError ''SYSTEM_PROMPT'')"
  by (simp add: load_global_def prompts_namespace_def)

text \<open>
  C1 (the prompt builders never throw and return a system and a user message). The code
  does not do this for \<open>build_messages\<close>: for every document text, source name, focus and
  \<open>max_items\<close> the call raises NameError, because line 41 reads the global name
  \<open>SYSTEM_PROMPT\<close>, which prompts.py never binds.
\<close>

theorem build_messages_raises_NameError:
  "build_messages document_text source_name focus max_items = Inl (NameError ''SYSTEM_PROMPT'')"
  by (simp add: build_messages_def load_global_SYSTEM_PROMPT Let_def)

text \<open>
  The other builder does what C1 says: for a \<open>RequirementPrompt\<close> it returns the two
  messages, and for an object with no \<open>name\<close> attribute the user prompt carries the
  requirement id in the place of the name.
\<close>

lemma build_requirement_messages_ok:
  "\<exists>sys usr. build_requirement_messages plat document_text (requirement_object r) source_name
      = Inr [\<lparr>role = ''system'', content = sys\<rparr>,
             \<lparr>role = ''user'', content = usr @ ''\<newline>\<newline>'' @ document_text\<rparr>]"
  by (cases "response_field_name r")
     (simp_all add: build_requirement_messages_def requirement_object_def getattr_def
        getattr_default_def py_or_def Let_def)

lemma build_requirement_messages_without_name:
  "\<exists>sys. build_requirement_messages plat document_text
       \<lparr>class_name = ''Requirement'', attrs = [(''id'', PStr rid), (''prompt'', PStr instruction)]\<rparr>
       None
     = Inr [\<lparr>role = ''system'', content = sys\<rparr>,
            \<lparr>role = ''user'',
             content = ''Source: document.\<newline>Requirement: '' @ rid @ '' ('' @ rid
                       @ '').\<newline>Instruction: '' @ instruction
                       @ ''\<newline>\<newline>Return only the JSON object.\<newline>\<newline>''
                       @ document_text\<rparr>]"
  by (simp add: build_requirement_messages_def getattr_def getattr_default_def py_or_def
        fmt_def Let_def)

subsection \<open>Requirement analysis\<close>

text \<open>What an item of \<open>analyse_requirements\<close> looks like, whenever one is built.\<close>

lemma requirement_item_Inr:
  assumes "requirement_item plat r reply = Inr item"
  obtains kvs b where
    "(case json_loads plat reply of Some v \<Rightarrow> v | None \<Rightarrow> PDict []) = PDict kvs"
    "item = PDict
       [(PStr ''title'', PStr (rq_name r)),
        (PStr ''evidence'',
         py_or (dict_get kvs ''statement'') (py_or (dict_get kvs ''evidence'') (PStr []))),
        (PStr ''snippet'', py_or (dict_get kvs ''snippet'') (PStr [])),
        (PStr ''citation'', py_or (dict_get kvs ''citation'') (PStr [])),
        (PStr ''fulfilled'', PBool b),
        (PStr ''responseField'', PStr (field_name_of r)),
        (PStr ''confidence'', py_or (dict_get kvs ''confidence'') (PStr ''low'')),
        (PStr ''requirementId'', PStr (rq_id r)),
        (PStr ''resourceType'', PStr (resource_type r))]"
proof -
  define parsed where "parsed = (case json_loads plat reply of Some v \<Rightarrow> v | None \<Rightarrow> PDict [])"
  show thesis
  proof (cases parsed)
    case (PDict kvs)
    then show ?thesis
      using assms that[of kvs] unfolding requirement_item_def parsed_def Let_def by auto
  qed (use assms in \<open>simp_all add: requirement_item_def parsed_def Let_def\<close>)
qed

lemma requirement_item_fulfilled_bool:
  assumes "requirement_item plat r reply = Inr item"
  shows "\<exists>b. py_get item ''fulfilled'' = Inr (PBool b)"
  using assms by (elim requirement_item_Inr) (simp add: py_get_def dict_get_def)

lemma requirement_item_fields:
  assumes "requirement_item plat r reply = Inr item"
  shows "py_get item ''requirementId'' = Inr (PStr (rq_id r))"
    and "py_get item ''title'' = Inr (PStr (rq_name r))"
    and "py_get item ''responseField'' = Inr (PStr (field_name_of r))"
    and "py_get item ''resourceType'' = Inr (PStr (resource_type r))"
  using assms by (elim requirement_item_Inr, simp add: py_get_def dict_get_def)+

lemma requirement_item_returns:
  assumes "object_or_undecodable plat reply"
  shows "\<exists>item. requirement_item plat r reply = Inr item"
proof (cases "json_loads plat reply")
  case None
  then show ?thesis by (simp add: requirement_item_def Let_def)
next
  case (Some v)
  with assms obtain kvs where "v = PDict kvs"
    by (cases v) (simp_all add: object_or_undecodable_def)
  with Some show ?thesis by (simp add: requirement_item_def Let_def)
qed

lemma requirement_item_undecodable:
  assumes "json_loads plat reply = None"
  shows "\<exists>item. requirement_item plat r reply = Inr item
           \<and> py_get item ''fulfilled'' = Inr (PBool False)"
  using assms
  by (simp add: requirement_item_def Let_def py_get_def dict_get_def parse_bool_def verdict_or_def)

lemma requirement_item_no_verdict:
  assumes "json_loads plat reply = Some (PDict kvs)"
    and "parse_bool (dict_get kvs (field_name_of r)) = None"
    and "parse_bool (dict_get kvs ''fulfilled'') = None"
  shows "\<exists>item. requirement_item plat r reply = Inr item
           \<and> py_get item ''fulfilled'' = Inr (PBool False)"
  using assms
  by (simp add: requirement_item_def Let_def py_get_def verdict_or_def)
     (simp add: dict_get_def)

text \<open>One turn of the loop: the prompt is always built, so the turn is the gateway call
  and the item.\<close>

lemma requirements_loop_step:
  "\<exists>messages. requirements_loop plat chat mt sn (r # rs) acc s =
     (case chat s messages of
        (reply, s1) \<Rightarrow>
          (case requirement_item plat r reply of
             Inl e \<Rightarrow> (Inl e, s1)
           | Inr item \<Rightarrow> requirements_loop plat chat mt sn rs (acc @ [item]) s1))"
proof -
  obtain sys usr where
    "build_requirement_messages plat mt (requirement_object r) (Some sn)
       = Inr [\<lparr>role = ''system'', content = sys\<rparr>,
              \<lparr>role = ''user'', content = usr @ ''\<newline>\<newline>'' @ mt\<rparr>]"
    using build_requirement_messages_ok by blast
  then show ?thesis
    by (intro exI[of _ "[\<lparr>role = ''system'', content = sys\<rparr>,
                          \<lparr>role = ''user'', content = usr @ ''\<newline>\<newline>'' @ mt\<rparr>]"]) simp
qed

text \<open>Whatever holds of every item the body builds holds of every item returned.\<close>

lemma requirements_loop_invariant:
  assumes "requirements_loop plat chat mt sn reqs acc s = (Inr items, s')"
    and "list_all P acc"
    and "\<And>r reply item. requirement_item plat r reply = Inr item \<Longrightarrow> P item"
  shows "list_all P items"
  using assms(1,2)
proof (induction reqs arbitrary: acc s)
  case Nil
  then show ?case by simp
next
  case (Cons r rs)
  obtain messages where step: "requirements_loop plat chat mt sn (r # rs) acc s =
     (case chat s messages of
        (reply, s1) \<Rightarrow>
          (case requirement_item plat r reply of
             Inl e \<Rightarrow> (Inl e, s1)
           | Inr item \<Rightarrow> requirements_loop plat chat mt sn rs (acc @ [item]) s1))"
    using requirements_loop_step[of plat chat mt sn r rs acc s] by blast
  obtain reply s1 where chat: "chat s messages = (reply, s1)"
    by (cases "chat s messages") auto
  from Cons.prems(1) step chat obtain item where
    item: "requirement_item plat r reply = Inr item"
    and rest: "requirements_loop plat chat mt sn rs (acc @ [item]) s1 = (Inr items, s')"
    by (cases "requirement_item plat r reply") auto
  have "list_all P (acc @ [item])"
    using Cons.prems(2) assms(3)[OF item] by simp
  from Cons.IH[OF rest this] show ?case .
qed

text \<open>
  When every reply lets the body build an item, the loop returns one item per
  requirement, the i-th item built from the i-th requirement.
\<close>

lemma requirements_loop_all:
  assumes "\<And>s messages r. \<exists>item. requirement_item plat r (fst (chat s messages)) = Inr item
             \<and> P r item"
  shows "\<exists>items s'. requirements_loop plat chat mt sn reqs acc s = (Inr (acc @ items), s')
           \<and> list_all2 P reqs items"
proof (induction reqs arbitrary: acc s)
  case Nil
  show ?case by simp
next
  case (Cons r rs)
  obtain messages where step: "requirements_loop plat chat mt sn (r # rs) acc s =
     (case chat s messages of
        (reply, s1) \<Rightarrow>
          (case requirement_item plat r reply of
             Inl e \<Rightarrow> (Inl e, s1)
           | Inr item \<Rightarrow> requirements_loop plat chat mt sn rs (acc @ [item]) s1))"
    using requirements_loop_step[of plat chat mt sn r rs acc s] by blast
  obtain reply s1 where chat: "chat s messages = (reply, s1)"
    by (cases "chat s messages") auto
  from assms[of r s messages] chat obtain item where
    item: "requirement_item plat r reply = Inr item" and P: "P r item"
    by auto
  from Cons.IH[of "acc @ [item]" s1] obtain items s' where
    rest: "requirements_loop plat chat mt sn rs (acc @ [item]) s1
             = (Inr ((acc @ [item]) @ items), s')"
    and all: "list_all2 P rs items"
    by blast
  have "requirements_loop plat chat mt sn (r # rs) acc s = (Inr (acc @ (item # items)), s')"
    using step chat item rest by simp
  moreover have "list_all2 P (r # rs) (item # items)"
    using P all by simp
  ultimately show ?case by blast
qed

lemma list_all2_right:
  assumes "list_all2 (\<lambda>x y. Q y) xs ys"
  shows "list_all Q ys \<and> length ys = length xs"
  using assms by (induction rule: list_all2_induct) auto

text \<open>The verdict coercion on the values of the spec's examples.\<close>

lemma parse_bool_examples:
  "parse_bool (PStr ''Yes'') = Some True"
  "parse_bool (PStr ''NOT FULFILLED'') = Some False"
  "parse_bool (PStr '' 1 '') = Some True"
  "parse_bool (PInt 42) = None"
  "parse_bool PNone = None"
  "parse_bool (PBool b) = Some b"
  by (simp_all add: parse_bool_def py_lower_def py_strip_def py_isspace_def py_lower_char_def
        upper_case_chars_def lower_case_chars_def Let_def)

text \<open>
  The configured field decides when it reads as true; in every other case, a configured
  \<open>false\<close> included, the generic field decides.
\<close>

lemma verdict_or_cases:
  "verdict_or (Some True) y = Some True"
  "verdict_or None y = y"
  "verdict_or (Some False) y = y"
  by (simp_all add: verdict_or_def)

lemma conflicting_verdicts_item:
  "requirement_item sample_platform requirement_E3 reply_conflicting_verdicts
     = Inr (PDict
         [(PStr ''title'', PStr (rq_name requirement_E3)),
          (PStr ''evidence'', PStr []),
          (PStr ''snippet'', PStr []),
          (PStr ''citation'', PStr []),
          (PStr ''fulfilled'', PBool True),
          (PStr ''responseField'', PStr ''securityBaseline''),
          (PStr ''confidence'', PStr ''low''),
          (PStr ''requirementId'', PStr ''E3''),
          (PStr ''resourceType'', PStr ''genericDocument'')])"
  by (simp add: requirement_item_def sample_platform_def sample_loads_def
        reply_conflicting_verdicts_def requirement_E3_def field_name_of_def dict_get_def
        parse_bool_def verdict_or_def py_or_def Let_def)

text \<open>
  C2 (the configured response field is read first and the generic \<open>fulfilled\<close> field is
  the fallback; a configured boolean \<open>false\<close> gives \<open>fulfilled = false\<close> whatever the
  generic field holds). The code does not do this: on the reply
  \<open>{"securityBaseline": false, "fulfilled": true}\<close> for the requirement whose configured
  field is \<open>securityBaseline\<close>, the item's \<open>fulfilled\<close> is \<open>True\<close>, because
  \<open>_parse_bool(a) or _parse_bool(b)\<close> passes on to the generic field when the configured
  one reads \<open>False\<close>.
\<close>

theorem configured_false_overridden_by_generic_true:
  "analyse_requirements sample_platform scripted [policy_txt] [requirement_E3]
       [reply_conflicting_verdicts]
     = (Inr [PDict
          [(PStr ''title'', PStr (rq_name requirement_E3)),
           (PStr ''evidence'', PStr []),
           (PStr ''snippet'', PStr []),
           (PStr ''citation'', PStr []),
           (PStr ''fulfilled'', PBool True),
           (PStr ''responseField'', PStr ''securityBaseline''),
           (PStr ''confidence'', PStr ''low''),
           (PStr ''requirementId'', PStr ''E3''),
           (PStr ''resourceType'', PStr ''genericDocument'')]], [])"
proof -
  obtain messages where
    "requirements_loop sample_platform scripted (concatenate_documents [policy_txt])
        (py_join '', '' (map doc_name [policy_txt])) [requirement_E3] []
        [reply_conflicting_verdicts]
     = (case scripted [reply_conflicting_verdicts] messages of
          (reply, s1) \<Rightarrow>
            (case requirement_item sample_platform requirement_E3 reply of
               Inl e \<Rightarrow> (Inl e, s1)
             | Inr item \<Rightarrow>
                 requirements_loop sample_platform scripted (concatenate_documents [policy_txt])
                   (py_join '', '' (map doc_name [policy_txt])) [] ([] @ [item]) s1))"
    using requirements_loop_step[of sample_platform scripted "concatenate_documents [policy_txt]"
        "py_join '', '' (map doc_name [policy_txt])" requirement_E3 "[]" "[]"
        "[reply_conflicting_verdicts]"]
    by blast
  then show ?thesis
    by (simp add: analyse_requirements_def conflicting_verdicts_item)
qed

text \<open>
  C5, as the spec states it (one item per requirement for every non-empty document
  sequence and every requirement sequence), fails when a reply is valid JSON that is not
  an object: \<open>json.loads("[]")\<close> is a list, \<open>parsed.get\<close> raises AttributeError, and no
  item list is returned.
\<close>

theorem analyse_requirements_list_reply_raises:
  "fst (analyse_requirements sample_platform scripted [policy_txt] [requirement_E3] [''[]''])
     = Inl (AttributeError ''list'' ''get'')"
proof -
  have item: "requirement_item sample_platform requirement_E3 ''[]''
                = Inl (AttributeError ''list'' ''get'')"
    by (simp add: requirement_item_def sample_platform_def sample_loads_def Let_def)
  obtain messages where
    "requirements_loop sample_platform scripted (concatenate_documents [policy_txt])
        (py_join '', '' (map doc_name [policy_txt])) [requirement_E3] [] [''[]'']
     = (case scripted [''[]''] messages of
          (reply, s1) \<Rightarrow>
            (case requirement_item sample_platform requirement_E3 reply of
               Inl e \<Rightarrow> (Inl e, s1)
             | Inr item \<Rightarrow>
                 requirements_loop sample_platform scripted (concatenate_documents [policy_txt])
                   (py_join '', '' (map doc_name [policy_txt])) [] ([] @ [item]) s1))"
    using requirements_loop_step[of sample_platform scripted "concatenate_documents [policy_txt]"
        "py_join '', '' (map doc_name [policy_txt])" requirement_E3 "[]" "[]" "[''[]'']"]
    by blast
  then show ?thesis
    by (simp add: analyse_requirements_def item)
qed

text \<open>
  C5, amended: for every non-empty document sequence and every requirement sequence,
  provided every reply of the gateway either fails to decode or decodes to a JSON object,
  \<open>analyse_requirements\<close> returns exactly one evidence item per requirement, in the order
  of the requirements: the i-th item carries the id, the name, the response field and the
  resource type of the i-th requirement. An empty requirement sequence gives the empty list.
\<close>

theorem analyse_requirements_one_item_per_requirement:
  assumes "documents \<noteq> []"
    and "\<forall>s messages. object_or_undecodable plat (fst (chat s messages))"
  shows "\<exists>items s'. analyse_requirements plat chat documents requirements s = (Inr items, s')
           \<and> length items = length requirements
           \<and> list_all2 (\<lambda>requirement item.
                 py_get item ''requirementId'' = Inr (PStr (rq_id requirement))
                 \<and> py_get item ''title'' = Inr (PStr (rq_name requirement))
                 \<and> py_get item ''responseField'' = Inr (PStr (field_name_of requirement))
                 \<and> py_get item ''resourceType'' = Inr (PStr (resource_type requirement)))
               requirements items"
proof -
  let ?P = "\<lambda>requirement item.
                 py_get item ''requirementId'' = Inr (PStr (rq_id requirement))
                 \<and> py_get item ''title'' = Inr (PStr (rq_name requirement))
                 \<and> py_get item ''responseField'' = Inr (PStr (field_name_of requirement))
                 \<and> py_get item ''resourceType'' = Inr (PStr (resource_type requirement))"
  have body: "\<exists>item. requirement_item plat r (fst (chat s messages)) = Inr item \<and> ?P r item"
    for s messages r
  proof -
    obtain item where item: "requirement_item plat r (fst (chat s messages)) = Inr item"
      using requirement_item_returns assms(2) by blast
    with requirement_item_fields[OF item] show ?thesis by blast
  qed
  obtain items s' where
    loop: "requirements_loop plat chat (concatenate_documents documents)
             (py_join '', '' (map doc_name documents)) requirements [] s = (Inr ([] @ items), s')"
    and all: "list_all2 ?P requirements items"
    using requirements_loop_all[of plat chat ?P "concatenate_documents documents"
        "py_join '', '' (map doc_name documents)" requirements "[]" s, OF body]
    by blast
  have "analyse_requirements plat chat documents requirements s = (Inr items, s')"
    using assms(1) loop by (simp add: analyse_requirements_def)
  moreover have "length items = length requirements"
    using all by (simp add: list_all2_lengthD)
  ultimately show ?thesis using all by blast
qed

theorem analyse_requirements_one_item_per_requirement_witness:
  "[policy_txt, report_pdf] \<noteq> []
   \<and> (\<forall>s messages. object_or_undecodable sample_platform (fst (fixed_reply ''{}'' s messages)))
   \<and> (\<exists>items s'. analyse_requirements sample_platform (fixed_reply ''{}'')
          [policy_txt, report_pdf] [requirement_E3, requirement_E45] 0 = (Inr items, s')
        \<and> length items = 2
        \<and> list_all2 (\<lambda>requirement item.
              py_get item ''requirementId'' = Inr (PStr (rq_id requirement))
              \<and> py_get item ''title'' = Inr (PStr (rq_name requirement))
              \<and> py_get item ''responseField'' = Inr (PStr (field_name_of requirement))
              \<and> py_get item ''resourceType'' = Inr (PStr (resource_type requirement)))
            [requirement_E3, requirement_E45] items)"
proof -
  have docs: "[policy_txt, report_pdf] \<noteq> []" by simp
  have replies: "\<forall>s messages. object_or_undecodable sample_platform
                   (fst (fixed_reply ''{}'' s messages))"
    by (simp add: object_or_undecodable_def fixed_reply_def sample_platform_def sample_loads_def)
  from analyse_requirements_one_item_per_requirement[OF docs replies,
      of "[requirement_E3, requirement_E45]" 0]
  show ?thesis using replies by (simp add: numeral_2_eq_2)
qed

text \<open>
  C6: every item \<open>analyse_requirements\<close> produces has a boolean under \<open>fulfilled\<close>,
  however the model replies. When no reply decodes, the items are still produced, one per
  requirement, each with \<open>fulfilled = False\<close>; and a reply that decodes to an object in
  which neither the configured field nor \<open>fulfilled\<close> reads as a verdict gives
  \<open>fulfilled = False\<close>.
\<close>

theorem analyse_requirements_fulfilled_is_boolean:
  "(analyse_requirements plat chat documents requirements s = (Inr items, s')
      \<longrightarrow> list_all (\<lambda>item. \<exists>b. py_get item ''fulfilled'' = Inr (PBool b)) items)
 \<and> (documents \<noteq> [] \<and> (\<forall>s messages. json_loads plat (fst (chat s messages)) = None)
      \<longrightarrow> (\<exists>items s'. analyse_requirements plat chat documents requirements s = (Inr items, s')
             \<and> length items = length requirements
             \<and> list_all (\<lambda>item. py_get item ''fulfilled'' = Inr (PBool False)) items))
 \<and> (json_loads plat reply = Some (PDict kvs)
      \<and> parse_bool (dict_get kvs (field_name_of requirement)) = None
      \<and> parse_bool (dict_get kvs ''fulfilled'') = None
      \<longrightarrow> (\<exists>item. requirement_item plat requirement reply = Inr item
             \<and> py_get item ''fulfilled'' = Inr (PBool False)))"
proof (intro conjI impI)
  assume returned: "analyse_requirements plat chat documents requirements s = (Inr items, s')"
  then have "documents \<noteq> []"
    by (auto simp: analyse_requirements_def split: if_splits)
  with returned have
    "requirements_loop plat chat (concatenate_documents documents)
       (py_join '', '' (map doc_name documents)) requirements [] s = (Inr items, s')"
    by (simp add: analyse_requirements_def)
  then show "list_all (\<lambda>item. \<exists>b. py_get item ''fulfilled'' = Inr (PBool b)) items"
    by (rule requirements_loop_invariant) (simp_all add: requirement_item_fulfilled_bool)
next
  assume h: "documents \<noteq> [] \<and> (\<forall>s messages. json_loads plat (fst (chat s messages)) = None)"
  let ?P = "\<lambda>(requirement :: requirement_prompt) item.
              py_get item ''fulfilled'' = Inr (PBool False)"
  have body: "\<exists>item. requirement_item plat r (fst (chat s messages)) = Inr item \<and> ?P r item"
    for s messages r
    using requirement_item_undecodable h by blast
  obtain items s' where
    loop: "requirements_loop plat chat (concatenate_documents documents)
             (py_join '', '' (map doc_name documents)) requirements [] s = (Inr ([] @ items), s')"
    and all: "list_all2 ?P requirements items"
    using requirements_loop_all[of plat chat ?P "concatenate_documents documents"
        "py_join '', '' (map doc_name documents)" requirements "[]" s, OF body]
    by blast
  have "analyse_requirements plat chat documents requirements s = (Inr items, s')"
    using h loop by (simp add: analyse_requirements_def)
  with list_all2_right[OF all]
  show "\<exists>items s'. analyse_requirements plat chat documents requirements s = (Inr items, s')
             \<and> length items = length requirements
             \<and> list_all (\<lambda>item. py_get item ''fulfilled'' = Inr (PBool False)) items"
    by blast
next
  assume "json_loads plat reply = Some (PDict kvs)
      \<and> parse_bool (dict_get kvs (field_name_of requirement)) = None
      \<and> parse_bool (dict_get kvs ''fulfilled'') = None"
  then show "\<exists>item. requirement_item plat requirement reply = Inr item
             \<and> py_get item ''fulfilled'' = Inr (PBool False)"
    using requirement_item_no_verdict by blast
qed

theorem analyse_requirements_fulfilled_is_boolean_witness:
  "(\<forall>s messages. json_loads sample_platform (fst (fixed_reply ''no evidence found'' s messages))
      = None)
   \<and> (\<exists>items s'. analyse_requirements sample_platform (fixed_reply ''no evidence found'')
          [policy_txt] [requirement_E3, requirement_E45] 0 = (Inr items, s')
        \<and> length items = 2
        \<and> list_all (\<lambda>item. py_get item ''fulfilled'' = Inr (PBool False)) items
        \<and> list_all (\<lambda>item. \<exists>b. py_get item ''fulfilled'' = Inr (PBool b)) items)
   \<and> json_loads sample_platform ''{}'' = Some (PDict [])
   \<and> parse_bool (dict_get [] (field_name_of requirement_E3)) = None
   \<and> parse_bool (dict_get [] ''fulfilled'') = None
   \<and> (\<exists>item. requirement_item sample_platform requirement_E3 ''{}'' = Inr item
        \<and> py_get item ''fulfilled'' = Inr (PBool False))"
proof -
  have undecodable: "\<forall>s messages.
      json_loads sample_platform (fst (fixed_reply ''no evidence found'' s messages)) = None"
    by (simp add: fixed_reply_def sample_platform_def sample_loads_def
          reply_conflicting_verdicts_def reply_nested_snippet_def)
  have empty_object: "json_loads sample_platform ''{}'' = Some (PDict [])"
    by (simp add: sample_platform_def sample_loads_def)
  have no_verdict: "parse_bool (dict_get [] (field_name_of requirement_E3)) = None"
    "parse_bool (dict_get [] ''fulfilled'') = None"
    by (simp_all add: dict_get_def parse_bool_def)
  note inst = analyse_requirements_fulfilled_is_boolean[of sample_platform
      "fixed_reply ''no evidence found''" "[policy_txt]" "[requirement_E3, requirement_E45]" 0
      "[]" 0 "''{}''" "[]" requirement_E3]
  from inst undecodable obtain items s' where
    run: "analyse_requirements sample_platform (fixed_reply ''no evidence found'')
            [policy_txt] [requirement_E3, requirement_E45] 0 = (Inr items, s')"
    and len: "length items = 2"
    and all_false: "list_all (\<lambda>item. py_get item ''fulfilled'' = Inr (PBool False)) items"
    by (auto simp: numeral_2_eq_2)
  from analyse_requirements_fulfilled_is_boolean[of sample_platform
      "fixed_reply ''no evidence found''" "[policy_txt]" "[requirement_E3, requirement_E45]" 0
      items s' "''{}''" "[]" requirement_E3] run
  have all_bool: "list_all (\<lambda>item. \<exists>b. py_get item ''fulfilled'' = Inr (PBool b)) items"
    by blast
  from inst empty_object no_verdict
  have third: "\<exists>item. requirement_item sample_platform requirement_E3 ''{}'' = Inr item
        \<and> py_get item ''fulfilled'' = Inr (PBool False)"
    by blast
  show ?thesis
    using undecodable run len all_false all_bool empty_object no_verdict third by blast
qed

subsection \<open>General analysis\<close>

text \<open>
  From the reply on, the general analysis does what C7 says: a reply that does not decode
  gives a result with an empty evidence list, an empty gaps list, the \<open>parse_error\<close>
  marker and the reply itself as \<open>raw_response\<close>.
\<close>

lemma analyse_reply_undecodable:
  assumes "json_loads plat reply = None"
  shows "analyse_reply plat documents reply
           = \<lparr>data = PDict [(PStr ''document_summary'', PStr []),
                            (PStr ''evidence'', PList []),
                            (PStr ''gaps'', PList []),
                            (PStr ''parse_error'', PStr ''Response was not valid JSON.'')],
              raw_response = reply,
              sources = map (\<lambda>doc. path_str (doc_path doc)) documents\<rparr>"
  using assms by (simp add: analyse_reply_def)

text \<open>
  C7 (a reply that is not valid JSON makes \<open>analyse\<close> return a degraded result instead of
  raising). The code does not get that far: for every non-empty document sequence, focus
  and \<open>max_items\<close>, whatever the gateway would reply, \<open>analyse\<close> raises the NameError of
  \<open>build_messages\<close> before the gateway is called, and the gateway's state is unchanged.
\<close>

theorem analyse_raises_NameError:
  "analyse plat chat (doc # docs) focus max_items s = (Inl (NameError ''SYSTEM_PROMPT''), s)"
  by (simp add: analyse_def build_messages_def load_global_SYSTEM_PROMPT Let_def)

subsection \<open>The payload builder\<close>

text \<open>The loop returns one payload per item, the i-th built from the i-th item.\<close>

lemma payloads_loop_Inr:
  assumes "payloads_loop plat cfg docs idx evidence_items acc = Inr ps"
  shows "\<exists>new. ps = acc @ new \<and> length new = length evidence_items
           \<and> (\<forall>i<length evidence_items.
                 evidence_payload plat cfg docs (idx + i) (evidence_items ! i) = Inr (new ! i))"
  using assms
proof (induction evidence_items arbitrary: idx acc)
  case Nil
  then show ?case by simp
next
  case (Cons item rest)
  from Cons.prems obtain p where p: "evidence_payload plat cfg docs idx item = Inr p"
    and loop: "payloads_loop plat cfg docs (Suc idx) rest (acc @ [p]) = Inr ps"
    by (auto split: sum.splits)
  from Cons.IH[OF loop] obtain new where new: "ps = (acc @ [p]) @ new" "length new = length rest"
    and nth: "\<forall>i<length rest. evidence_payload plat cfg docs (Suc idx + i) (rest ! i) = Inr (new ! i)"
    by blast
  have "\<forall>i<length (item # rest).
          evidence_payload plat cfg docs (idx + i) ((item # rest) ! i) = Inr ((p # new) ! i)"
  proof (intro allI impI)
    fix i assume "i < length (item # rest)"
    then show "evidence_payload plat cfg docs (idx + i) ((item # rest) ! i) = Inr ((p # new) ! i)"
      using p nth by (cases i) auto
  qed
  with new show ?case by (intro exI[of _ "p # new"]) simp
qed

lemma evidence_list_or: "py_or (PList evidence_items) (PList []) = PList evidence_items"
  by (simp add: py_or_def)

lemma payloads_loop_returns:
  assumes "\<forall>i<length evidence_items.
             \<exists>p. evidence_payload plat cfg docs (idx + i) (evidence_items ! i) = Inr p"
  shows "\<exists>ps. payloads_loop plat cfg docs idx evidence_items acc = Inr ps"
  using assms
proof (induction evidence_items arbitrary: idx acc)
  case Nil
  show ?case by simp
next
  case (Cons item rest)
  from Cons.prems[rule_format, of 0] obtain p where
    p: "evidence_payload plat cfg docs idx item = Inr p"
    by auto
  have "\<forall>i<length rest. \<exists>p. evidence_payload plat cfg docs (Suc idx + i) (rest ! i) = Inr p"
  proof (intro allI impI)
    fix i assume "i < length rest"
    then show "\<exists>p. evidence_payload plat cfg docs (Suc idx + i) (rest ! i) = Inr p"
      using Cons.prems[rule_format, of "Suc i"] by simp
  qed
  from Cons.IH[OF this] p show ?case by simp
qed

text \<open>A readable item and a non-empty document list are all the loop body needs.\<close>

lemma evidence_payload_returns:
  assumes "docs \<noteq> []" and "readable_item item"
  shows "\<exists>p. evidence_payload plat cfg docs idx item = Inr p"
proof -
  from assms(2) obtain kvs where item: "item = PDict kvs"
    and h: "hashable (item_response_field kvs)"
    by (cases item) (simp_all add: readable_item_def)
  have "list_all (\<lambda>(k, v). hashable k)
          (generic_document_entries plat cfg (docs ! (idx mod length docs)) idx kvs)"
    using h by (simp add: generic_document_entries_def)
  from dict_display_returns[OF this, of "[]"] obtain gd where
    "dict_display [] (generic_document_entries plat cfg (docs ! (idx mod length docs)) idx kvs)
       = Inr (PDict gd)"
    by blast
  with assms(1) item show ?thesis
    by (simp add: evidence_payload_def Let_def)
qed

lemma build_evidence_payloads_returns:
  assumes "docs \<noteq> []"
    and "py_get (data result) ''evidence'' = Inr (PList evidence_items)"
    and "list_all readable_item evidence_items"
  shows "\<exists>ps. build_evidence_payloads plat result docs cfg = Inr ps"
proof -
  have "\<forall>i<length evidence_items.
          \<exists>p. evidence_payload plat cfg docs (0 + i) (evidence_items ! i) = Inr p"
    using assms(1,3) evidence_payload_returns by (simp add: list_all_length)
  from payloads_loop_returns[OF this, of "[]"] assms(2) show ?thesis
    by (simp add: build_evidence_payloads_def evidence_list_or)
qed

lemma build_evidence_payloads_Inr:
  assumes "build_evidence_payloads plat result docs cfg = Inr ps"
    and "py_get (data result) ''evidence'' = Inr (PList evidence_items)"
  shows "length ps = length evidence_items"
    and "\<forall>i<length evidence_items. evidence_payload plat cfg docs i (evidence_items ! i) = Inr (ps ! i)"
proof -
  from assms have "payloads_loop plat cfg docs 0 evidence_items [] = Inr ps"
    by (simp add: build_evidence_payloads_def evidence_list_or)
  from payloads_loop_Inr[OF this]
  show "length ps = length evidence_items"
    and "\<forall>i<length evidence_items. evidence_payload plat cfg docs i (evidence_items ! i) = Inr (ps ! i)"
    by auto
qed

text \<open>A payload that is built comes from a dictionary item and a non-empty document list.\<close>

lemma evidence_payload_Inr:
  assumes "evidence_payload plat cfg docs idx item = Inr p"
  shows "docs \<noteq> [] \<and> (\<exists>kvs gd. item = PDict kvs \<and> distinct (map fst gd)
           \<and> map_of gd = fold (\<lambda>(k, v) m. m(k \<mapsto> v))
                (generic_document_entries plat cfg (docs ! (idx mod length docs)) idx kvs) Map.empty
           \<and> p = strip_none (evidence_body plat cfg idx (PDict gd)))"
proof -
  from assms have docs: "docs \<noteq> []"
    by (auto simp: evidence_payload_def split: if_splits)
  from assms docs obtain kvs where item: "item = PDict kvs"
    by (cases item) (simp_all add: evidence_payload_def Let_def)
  from assms docs item obtain d where
    d: "dict_display [] (generic_document_entries plat cfg (docs ! (idx mod length docs)) idx kvs)
          = Inr d"
    and p: "p = strip_none (evidence_body plat cfg idx d)"
    by (auto simp: evidence_payload_def Let_def split: sum.splits)
  from dict_display_Inr[OF d] obtain gd where "d = PDict gd" "distinct (map fst gd)"
    "map_of gd = fold (\<lambda>(k, v) m. m(k \<mapsto> v))
       (generic_document_entries plat cfg (docs ! (idx mod length docs)) idx kvs) (map_of [])"
    by auto
  with docs item p show ?thesis by auto
qed

text \<open>Reading a field of the \<open>genericDocument\<close> out of the pruned payload.\<close>

lemma payload_lookup:
  assumes "distinct (map fst gd)" and "map_of gd (PStr k) = Some v" and "\<not> is_empty_marker v"
  shows "lookup_path (strip_none (evidence_body plat cfg idx (PDict gd)))
           (''resource'' # ''genericDocument'' # k # ks) = lookup_path (strip_none v) ks"
proof -
  from assms(2) have "gd \<noteq> []" by auto
  then have ne: "\<not> is_empty_marker (PDict gd)" by (simp add: is_empty_marker_def)
  have "lookup_path (strip_none (evidence_body plat cfg idx (PDict gd)))
           (''resource'' # ''genericDocument'' # k # ks)
        = lookup_path (strip_none (PDict gd)) (k # ks)"
    using ne by (simp add: evidence_body_def is_empty_marker_def del: strip_none.simps(1))
       (simp add: is_empty_marker_def)
  also have "\<dots> = lookup_path (strip_none v) ks"
    using lookup_strip_dict[OF assms(1), of k ks] assms(2,3) by simp
  finally show ?thesis .
qed

lemma generic_document_raw:
  assumes "map_of gd = fold (\<lambda>(k, v) m. m(k \<mapsto> v))
             (generic_document_entries plat cfg doc idx kvs) Map.empty"
  shows "map_of gd (PStr ''raw'') = Some (item_raw plat kvs)"
  using assms by (simp add: generic_document_entries_def)

lemma generic_document_of_doc:
  assumes "map_of gd = fold (\<lambda>(k, v) m. m(k \<mapsto> v))
             (generic_document_entries plat cfg doc idx kvs) Map.empty"
  shows "item_response_field kvs \<noteq> PStr ''name''
           \<Longrightarrow> map_of gd (PStr ''name'') = Some (PStr (doc_name doc))"
    and "item_response_field kvs \<noteq> PStr ''filetype''
           \<Longrightarrow> map_of gd (PStr ''filetype'')
                 = Some (PStr (lstrip_chars (CHR ''.'') (path_suffix (doc_path doc))))"
    and "item_response_field kvs \<noteq> PStr ''dataLocation''
           \<Longrightarrow> map_of gd (PStr ''dataLocation'')
                 = Some (PDict [(PStr ''localDataLocation'',
                                 PDict [(PStr ''path'', PStr (path_str (doc_path doc)))])])"
  using assms by (auto simp: generic_document_entries_def)

lemma payload_raw:
  assumes "evidence_payload plat cfg docs idx (PDict kvs) = Inr p"
    and "item_raw plat kvs = PStr r"
  shows "lookup_path p [''resource'', ''genericDocument'', ''raw''] = Some (PStr r)"
proof -
  from evidence_payload_Inr[OF assms(1)] obtain gd where
    gd: "distinct (map fst gd)"
      "map_of gd = fold (\<lambda>(k, v) m. m(k \<mapsto> v))
         (generic_document_entries plat cfg (docs ! (idx mod length docs)) idx kvs) Map.empty"
    and p: "p = strip_none (evidence_body plat cfg idx (PDict gd))"
    by auto
  have "map_of gd (PStr ''raw'') = Some (PStr r)"
    using generic_document_raw[OF gd(2)] assms(2) by simp
  from payload_lookup[OF gd(1) this, of plat cfg idx "[]"] p
  show ?thesis by (simp add: is_empty_marker_def)
qed

text \<open>The merge of snippet and citation, on string fields.\<close>

lemma item_raw_cases:
  shows "dict_get kvs ''snippet'' = PStr s \<Longrightarrow> s \<noteq> [] \<Longrightarrow> \<not> truthy (dict_get kvs ''citation'')
           \<Longrightarrow> item_raw plat kvs = PStr s"
    and "dict_get kvs ''snippet'' = PStr s \<Longrightarrow> s \<noteq> [] \<Longrightarrow> dict_get kvs ''citation'' = PStr c
           \<Longrightarrow> c \<noteq> [] \<Longrightarrow> item_raw plat kvs = PStr (s @ ''\<newline>Citation: '' @ c)"
    and "\<not> truthy (dict_get kvs ''snippet'') \<Longrightarrow> \<not> truthy (dict_get kvs ''citation'')
           \<Longrightarrow> dict_get kvs ''evidence'' = PStr e \<Longrightarrow> e \<noteq> [] \<Longrightarrow> item_raw plat kvs = PStr e"
    and "\<not> truthy (dict_get kvs ''snippet'') \<Longrightarrow> \<not> truthy (dict_get kvs ''citation'')
           \<Longrightarrow> \<not> truthy (dict_get kvs ''evidence'') \<Longrightarrow> dict_get kvs ''statement'' = PStr t
           \<Longrightarrow> item_raw plat kvs = PStr t"
    and "\<not> truthy (dict_get kvs ''snippet'') \<Longrightarrow> \<not> truthy (dict_get kvs ''citation'')
           \<Longrightarrow> \<not> truthy (dict_get kvs ''evidence'') \<Longrightarrow> \<not> truthy (dict_get kvs ''statement'')
           \<Longrightarrow> item_raw plat kvs = PStr []"
  by (simp_all add: item_raw_def item_snippet_def item_citation_def py_or_def fmt_def Let_def)

text \<open>The facts that evaluate the builder on the concrete inputs.\<close>

lemmas payload_evaluation =
  build_evidence_payloads_def result_of_items_def evidence_item_def evidence_item_entries_def
  py_get_def dict_get_def
  py_or_def evidence_payload_def generic_document_entries_def evidence_body_def item_raw_def
  item_snippet_def item_citation_def item_response_field_def is_empty_marker_def fmt_def Let_def
  sample_platform_def sample_config_def policy_txt_def report_pdf_def doc_name_def
  lstrip_chars_def str_int_def digits_of.simps

text \<open>
  The reply \<open>{"securityBaseline": "Yes", "snippet": {"quote": null}}\<close> makes
  \<open>analyse_requirements\<close> build an item whose snippet is the nested object.
\<close>

lemma nested_snippet_item:
  "requirement_item sample_platform requirement_E3 reply_nested_snippet
     = Inr (evidence_item (rq_name requirement_E3) (PStr []) (PDict [(PStr ''quote'', PNone)])
              (PStr []))"
  by (simp add: requirement_item_def sample_platform_def sample_loads_def
        reply_conflicting_verdicts_def reply_nested_snippet_def requirement_E3_def
        field_name_of_def dict_get_def parse_bool_def verdict_or_def py_or_def Let_def
        evidence_item_def evidence_item_entries_def py_lower_def py_strip_def py_isspace_def
        py_lower_char_def upper_case_chars_def lower_case_chars_def)

lemma nested_snippet_payload:
  "build_evidence_payloads sample_platform
       (result_of_items [evidence_item (rq_name requirement_E3) (PStr [])
                           (PDict [(PStr ''quote'', PNone)]) (PStr [])])
       [policy_txt] sample_config
     = Inr [PDict
         [(PStr ''id'', PStr ''uuid-0''),
          (PStr ''timestamp'', PStr ''2024-01-01T00:00:00+00:00''),
          (PStr ''targetOfEvaluationId'', PStr ''00000000-0000-0000-0000-000000000000''),
          (PStr ''toolId'', PStr ''document-analyser''),
          (PStr ''resource'',
           PDict [(PStr ''genericDocument'',
             PDict [(PStr ''id'', PStr ''document-analyser:document:0''),
                    (PStr ''name'', PStr ''policy.txt''),
                    (PStr ''description'', PStr (rq_name requirement_E3)),
                    (PStr ''filetype'', PStr ''txt''),
                    (PStr ''dataLocation'',
                     PDict [(PStr ''localDataLocation'',
                             PDict [(PStr ''path'', PStr ''policy.txt'')])]),
                    (PStr ''securityBaseline'', PBool True),
                    (PStr ''raw'', PDict [])])])]]"
  by (simp add: payload_evaluation requirement_E3_def)

text \<open>
  C3 (every payload of \<open>build_evidence_payloads\<close> is fully pruned, mappings that become
  empty by pruning included). The code does not do this: the dictionary branch of
  \<open>_strip_none\<close> tests a value before pruning it, so the item whose snippet is
  \<open>{"quote": null}\<close> gives a payload whose \<open>raw\<close> field is the empty mapping.
\<close>

theorem payload_keeps_empty_mapping:
  "\<exists>payload.
      build_evidence_payloads sample_platform
          (result_of_items [evidence_item (rq_name requirement_E3) (PStr [])
                              (PDict [(PStr ''quote'', PNone)]) (PStr [])])
          [policy_txt] sample_config
        = Inr [payload]
      \<and> lookup_path payload [''resource'', ''genericDocument'', ''raw''] = Some (PDict [])
      \<and> \<not> fully_pruned payload"
  by (simp add: nested_snippet_payload is_empty_marker_def)

text \<open>
  C4, as the spec states it (\<open>raw\<close> is the empty string when the item has neither snippet
  nor citation), fails: the snippet the code merges is the first non-empty of the item's
  snippet, citation, evidence and statement, so an item with an evidence text and neither
  snippet nor citation gets that text as \<open>raw\<close>.
\<close>

theorem raw_falls_back_to_evidence_text:
  "\<exists>payload.
      build_evidence_payloads sample_platform
          (result_of_items [evidence_item ''Backups'' (PStr ''Backups are taken daily.'')
                              (PStr []) (PStr [])])
          [policy_txt] sample_config
        = Inr [payload]
      \<and> lookup_path payload [''resource'', ''genericDocument'', ''raw'']
          = Some (PStr ''Backups are taken daily.'')"
  by (simp add: payload_evaluation)

text \<open>
  With a citation and no snippet the merged text repeats the citation; the branch that
  would give \<open>Citation: Page 3\<close> alone is never taken.
\<close>

lemma raw_of_citation_without_snippet:
  "\<exists>payload.
      build_evidence_payloads sample_platform
          (result_of_items [evidence_item ''Backups'' (PStr []) (PStr []) (PStr ''Page 3'')])
          [policy_txt] sample_config
        = Inr [payload]
      \<and> lookup_path payload [''resource'', ''genericDocument'', ''raw'']
          = Some (PStr ''Page 3\<newline>Citation: Page 3'')"
  by (simp add: payload_evaluation)

text \<open>
  C4, amended: for every evidence item of a result whose payloads are built, the payload's
  \<open>raw\<close> field is the snippet alone when the item has a snippet and no citation, and
  \<open><snippet>\nCitation: <citation>\<close> when it has both; when it has neither snippet nor
  citation, \<open>raw\<close> is the item's evidence text, else its statement text, else the empty
  string. (Snippet, citation, evidence and statement are strings; a field is absent when
  it is missing or falsy.)
\<close>

theorem payload_raw_merge_rule:
  assumes "build_evidence_payloads plat result documents cfg = Inr payloads"
    and "py_get (data result) ''evidence'' = Inr (PList evidence_items)"
    and "i < length evidence_items"
    and "evidence_items ! i = PDict kvs"
  shows "(dict_get kvs ''snippet'' = PStr s \<and> s \<noteq> [] \<and> \<not> truthy (dict_get kvs ''citation'')
            \<longrightarrow> lookup_path (payloads ! i) [''resource'', ''genericDocument'', ''raw'']
                = Some (PStr s))
       \<and> (dict_get kvs ''snippet'' = PStr s \<and> s \<noteq> []
            \<and> dict_get kvs ''citation'' = PStr c \<and> c \<noteq> []
            \<longrightarrow> lookup_path (payloads ! i) [''resource'', ''genericDocument'', ''raw'']
                = Some (PStr (s @ ''\<newline>Citation: '' @ c)))
       \<and> (\<not> truthy (dict_get kvs ''snippet'') \<and> \<not> truthy (dict_get kvs ''citation'')
            \<and> dict_get kvs ''evidence'' = PStr e \<and> e \<noteq> []
            \<longrightarrow> lookup_path (payloads ! i) [''resource'', ''genericDocument'', ''raw'']
                = Some (PStr e))
       \<and> (\<not> truthy (dict_get kvs ''snippet'') \<and> \<not> truthy (dict_get kvs ''citation'')
            \<and> \<not> truthy (dict_get kvs ''evidence'') \<and> dict_get kvs ''statement'' = PStr t
            \<longrightarrow> lookup_path (payloads ! i) [''resource'', ''genericDocument'', ''raw'']
                = Some (PStr t))
       \<and> (\<not> truthy (dict_get kvs ''snippet'') \<and> \<not> truthy (dict_get kvs ''citation'')
            \<and> \<not> truthy (dict_get kvs ''evidence'') \<and> \<not> truthy (dict_get kvs ''statement'')
            \<longrightarrow> lookup_path (payloads ! i) [''resource'', ''genericDocument'', ''raw'']
                = Some (PStr []))"
proof -
  have p: "evidence_payload plat cfg documents i (PDict kvs) = Inr (payloads ! i)"
    using build_evidence_payloads_Inr(2)[OF assms(1,2)] assms(3,4) by auto
  show ?thesis
    using payload_raw[OF p] item_raw_cases[where plat=plat and kvs=kvs] by blast
qed

theorem payload_raw_merge_rule_witness:
  "\<exists>payloads.
      build_evidence_payloads sample_platform
          (result_of_items
             [evidence_item ''a'' (PStr ''Backups are taken daily.'') (PStr ''Encrypted at rest'')
                (PStr []),
              evidence_item ''b'' (PStr []) (PStr ''Encrypted at rest'') (PStr ''Page 3''),
              evidence_item ''c'' (PStr ''Backups are taken daily.'') (PStr []) (PStr []),
              PDict [(PStr ''statement'', PStr ''Keys rotate yearly.'')],
              evidence_item ''e'' (PStr []) (PStr []) (PStr [])])
          [policy_txt] sample_config
        = Inr payloads
      \<and> lookup_path (payloads ! 0) [''resource'', ''genericDocument'', ''raw'']
          = Some (PStr ''Encrypted at rest'')
      \<and> lookup_path (payloads ! 1) [''resource'', ''genericDocument'', ''raw'']
          = Some (PStr ''Encrypted at rest\<newline>Citation: Page 3'')
      \<and> lookup_path (payloads ! 2) [''resource'', ''genericDocument'', ''raw'']
          = Some (PStr ''Backups are taken daily.'')
      \<and> lookup_path (payloads ! 3) [''resource'', ''genericDocument'', ''raw'']
          = Some (PStr ''Keys rotate yearly.'')
      \<and> lookup_path (payloads ! 4) [''resource'', ''genericDocument'', ''raw''] = Some (PStr [])"
proof -
  let ?items =
    "[evidence_item ''a'' (PStr ''Backups are taken daily.'') (PStr ''Encrypted at rest'') (PStr []),
      evidence_item ''b'' (PStr []) (PStr ''Encrypted at rest'') (PStr ''Page 3''),
      evidence_item ''c'' (PStr ''Backups are taken daily.'') (PStr []) (PStr []),
      PDict [(PStr ''statement'', PStr ''Keys rotate yearly.'')],
      evidence_item ''e'' (PStr []) (PStr []) (PStr [])]"
  obtain payloads where run:
    "build_evidence_payloads sample_platform (result_of_items ?items) [policy_txt] sample_config
       = Inr payloads"
    by (simp add: payload_evaluation)
  have ev: "py_get (data (result_of_items ?items)) ''evidence'' = Inr (PList ?items)"
    by (simp add: result_of_items_def py_get_def dict_get_def)
  note rule = payload_raw_merge_rule[OF run ev]
  have "lookup_path (payloads ! 0) [''resource'', ''genericDocument'', ''raw'']
          = Some (PStr ''Encrypted at rest'')"
    using rule[of 0 "evidence_item_entries ''a'' (PStr ''Backups are taken daily.'')
                       (PStr ''Encrypted at rest'') (PStr [])"
                  "''Encrypted at rest''" "[]" "[]" "[]"]
    by (simp add: evidence_item_def evidence_item_entries_def dict_get_def)
  moreover have "lookup_path (payloads ! 1) [''resource'', ''genericDocument'', ''raw'']
          = Some (PStr ''Encrypted at rest\<newline>Citation: Page 3'')"
    using rule[of 1 "evidence_item_entries ''b'' (PStr []) (PStr ''Encrypted at rest'')
                       (PStr ''Page 3'')"
                  "''Encrypted at rest''" "''Page 3''" "[]" "[]"]
    by (simp add: evidence_item_def evidence_item_entries_def dict_get_def)
  moreover have "lookup_path (payloads ! 2) [''resource'', ''genericDocument'', ''raw'']
          = Some (PStr ''Backups are taken daily.'')"
    using rule[of 2 "evidence_item_entries ''c'' (PStr ''Backups are taken daily.'') (PStr [])
                       (PStr [])"
                  "[]" "[]" "''Backups are taken daily.''" "[]"]
    by (simp add: evidence_item_def evidence_item_entries_def dict_get_def)
  moreover have "lookup_path (payloads ! 3) [''resource'', ''genericDocument'', ''raw'']
          = Some (PStr ''Keys rotate yearly.'')"
    using rule[of 3 "[(PStr ''statement'', PStr ''Keys rotate yearly.'')]"
                  "[]" "[]" "[]" "''Keys rotate yearly.''"]
    by (simp add: dict_get_def)
  moreover have "lookup_path (payloads ! 4) [''resource'', ''genericDocument'', ''raw'']
          = Some (PStr [])"
    using rule[of 4 "evidence_item_entries ''e'' (PStr []) (PStr []) (PStr [])" "[]" "[]" "[]" "[]"]
    by (simp add: evidence_item_def evidence_item_entries_def dict_get_def)
  ultimately show ?thesis using run by blast
qed

text \<open>
  C8: for a non-empty document sequence, \<open>build_evidence_payloads\<close> returns whenever
  every evidence item is readable, and whenever it returns there is one payload per
  evidence item and the payload at index i describes the document at index \<open>i mod d\<close>:
  its name, its file type and its path are that document's. (The verdict is stored in the
  same dictionary under the item's response field; a field whose key is the response field
  holds the verdict instead.)
\<close>

theorem payload_document_wraps_around:
  assumes "documents \<noteq> []"
    and "py_get (data result) ''evidence'' = Inr (PList evidence_items)"
  shows "(list_all readable_item evidence_items
            \<longrightarrow> (\<exists>payloads. build_evidence_payloads plat result documents cfg = Inr payloads))
       \<and> (build_evidence_payloads plat result documents cfg = Inr payloads
            \<longrightarrow> length payloads = length evidence_items
              \<and> (\<forall>i<length evidence_items. \<exists>kvs. evidence_items ! i = PDict kvs
                   \<and> (item_response_field kvs \<noteq> PStr ''name'' \<longrightarrow>
                        lookup_path (payloads ! i) [''resource'', ''genericDocument'', ''name'']
                          = Some (PStr (doc_name (documents ! (i mod length documents)))))
                   \<and> (item_response_field kvs \<noteq> PStr ''filetype'' \<longrightarrow>
                        lookup_path (payloads ! i) [''resource'', ''genericDocument'', ''filetype'']
                          = Some (PStr (lstrip_chars (CHR ''.'')
                               (path_suffix (doc_path (documents ! (i mod length documents)))))))
                   \<and> (item_response_field kvs \<noteq> PStr ''dataLocation'' \<longrightarrow>
                        lookup_path (payloads ! i)
                            [''resource'', ''genericDocument'', ''dataLocation'',
                             ''localDataLocation'', ''path'']
                          = Some (PStr (path_str
                               (doc_path (documents ! (i mod length documents))))))))"
proof (intro conjI impI allI)
  assume "list_all readable_item evidence_items"
  with assms show "\<exists>payloads. build_evidence_payloads plat result documents cfg = Inr payloads"
    by (rule build_evidence_payloads_returns)
next
  assume run: "build_evidence_payloads plat result documents cfg = Inr payloads"
  show "length payloads = length evidence_items"
    using build_evidence_payloads_Inr(1)[OF run assms(2)] .
next
  fix i
  assume run: "build_evidence_payloads plat result documents cfg = Inr payloads"
    and i: "i < length evidence_items"
  have p: "evidence_payload plat cfg documents i (evidence_items ! i) = Inr (payloads ! i)"
    using build_evidence_payloads_Inr(2)[OF run assms(2)] i by auto
  from evidence_payload_Inr[OF p] obtain kvs gd where
    item: "evidence_items ! i = PDict kvs" and dist: "distinct (map fst gd)"
    and gd: "map_of gd = fold (\<lambda>(k, v) m. m(k \<mapsto> v))
         (generic_document_entries plat cfg (documents ! (i mod length documents)) i kvs) Map.empty"
    and pay: "payloads ! i = strip_none (evidence_body plat cfg i (PDict gd))"
    by auto
  note doc = generic_document_of_doc[OF gd]
  have "item_response_field kvs \<noteq> PStr ''name'' \<Longrightarrow>
          lookup_path (payloads ! i) [''resource'', ''genericDocument'', ''name'']
            = Some (PStr (doc_name (documents ! (i mod length documents))))"
    using payload_lookup[OF dist doc(1), of plat cfg i "[]"] pay
    by (simp add: is_empty_marker_def)
  moreover have "item_response_field kvs \<noteq> PStr ''filetype'' \<Longrightarrow>
          lookup_path (payloads ! i) [''resource'', ''genericDocument'', ''filetype'']
            = Some (PStr (lstrip_chars (CHR ''.'')
                 (path_suffix (doc_path (documents ! (i mod length documents))))))"
    using payload_lookup[OF dist doc(2), of plat cfg i "[]"] pay
    by (simp add: is_empty_marker_def)
  moreover have "item_response_field kvs \<noteq> PStr ''dataLocation'' \<Longrightarrow>
          lookup_path (payloads ! i)
              [''resource'', ''genericDocument'', ''dataLocation'', ''localDataLocation'', ''path'']
            = Some (PStr (path_str (doc_path (documents ! (i mod length documents)))))"
    using payload_lookup[OF dist doc(3), of plat cfg i "[''localDataLocation'', ''path'']"] pay
    by (simp add: is_empty_marker_def)
  ultimately show "\<exists>kvs. evidence_items ! i = PDict kvs
                   \<and> (item_response_field kvs \<noteq> PStr ''name'' \<longrightarrow>
                        lookup_path (payloads ! i) [''resource'', ''genericDocument'', ''name'']
                          = Some (PStr (doc_name (documents ! (i mod length documents)))))
                   \<and> (item_response_field kvs \<noteq> PStr ''filetype'' \<longrightarrow>
                        lookup_path (payloads ! i) [''resource'', ''genericDocument'', ''filetype'']
                          = Some (PStr (lstrip_chars (CHR ''.'')
                               (path_suffix (doc_path (documents ! (i mod length documents)))))))
                   \<and> (item_response_field kvs \<noteq> PStr ''dataLocation'' \<longrightarrow>
                        lookup_path (payloads ! i)
                            [''resource'', ''genericDocument'', ''dataLocation'',
                             ''localDataLocation'', ''path'']
                          = Some (PStr (path_str
                               (doc_path (documents ! (i mod length documents))))))"
    using item by blast
qed

text \<open>The scenario of the spec: two documents, three evidence items.\<close>

theorem payload_document_wraps_around_witness:
  "[policy_txt, report_pdf] \<noteq> []
   \<and> list_all readable_item
        [evidence_item ''a'' (PStr []) (PStr ''Encrypted at rest'') (PStr []),
         evidence_item ''b'' (PStr []) (PStr ''Tested yearly'') (PStr ''Page 1''),
         evidence_item ''c'' (PStr []) (PStr []) (PStr [])]
   \<and> (\<exists>payloads.
        build_evidence_payloads sample_platform
            (result_of_items
               [evidence_item ''a'' (PStr []) (PStr ''Encrypted at rest'') (PStr []),
                evidence_item ''b'' (PStr []) (PStr ''Tested yearly'') (PStr ''Page 1''),
                evidence_item ''c'' (PStr []) (PStr []) (PStr [])])
            [policy_txt, report_pdf] sample_config
          = Inr payloads
        \<and> length payloads = 3
        \<and> lookup_path (payloads ! 0) [''resource'', ''genericDocument'', ''name'']
            = Some (PStr ''policy.txt'')
        \<and> lookup_path (payloads ! 1) [''resource'', ''genericDocument'', ''name'']
            = Some (PStr ''report.pdf'')
        \<and> lookup_path (payloads ! 2) [''resource'', ''genericDocument'', ''name'']
            = Some (PStr ''policy.txt'')
        \<and> lookup_path (payloads ! 1)
              [''resource'', ''genericDocument'', ''dataLocation'', ''localDataLocation'', ''path'']
            = Some (PStr ''out/report.pdf''))"
proof -
  let ?items =
    "[evidence_item ''a'' (PStr []) (PStr ''Encrypted at rest'') (PStr []),
      evidence_item ''b'' (PStr []) (PStr ''Tested yearly'') (PStr ''Page 1''),
      evidence_item ''c'' (PStr []) (PStr []) (PStr [])]"
  have docs: "[policy_txt, report_pdf] \<noteq> []" by simp
  have ev: "py_get (data (result_of_items ?items)) ''evidence'' = Inr (PList ?items)"
    by (simp add: result_of_items_def py_get_def dict_get_def)
  have field: "item_response_field (evidence_item_entries title x y z) = PStr ''securityBaseline''"
    for title x y z
    by (simp add: item_response_field_def evidence_item_entries_def dict_get_def py_or_def)
  have readable: "list_all readable_item ?items"
    by (simp add: readable_item_def evidence_item_def field)
  obtain payloads where run:
    "build_evidence_payloads sample_platform (result_of_items ?items) [policy_txt, report_pdf]
       sample_config = Inr payloads"
    using payload_document_wraps_around[OF docs ev, of sample_platform sample_config "[]"] readable
    by blast
  note rule = payload_document_wraps_around[OF docs ev, of sample_platform sample_config payloads,
      THEN conjunct2, rule_format, OF run]
  have wrap: "(2::nat) mod Suc (Suc 0) = 0"
    by (simp add: numeral_2_eq_2)
  have "length payloads = 3"
    using rule by simp
  moreover have "lookup_path (payloads ! 0) [''resource'', ''genericDocument'', ''name'']
          = Some (PStr ''policy.txt'')"
    using rule[THEN conjunct2, rule_format, of 0]
    by (auto simp: evidence_item_def field policy_txt_def doc_name_def)
  moreover have "lookup_path (payloads ! 1) [''resource'', ''genericDocument'', ''name'']
          = Some (PStr ''report.pdf'')"
    using rule[THEN conjunct2, rule_format, of 1]
    by (auto simp: evidence_item_def field report_pdf_def doc_name_def)
  moreover have "lookup_path (payloads ! 2) [''resource'', ''genericDocument'', ''name'']
          = Some (PStr ''policy.txt'')"
    using rule[THEN conjunct2, rule_format, of 2]
    by (auto simp: evidence_item_def field policy_txt_def doc_name_def wrap)
  moreover have "lookup_path (payloads ! 1)
            [''resource'', ''genericDocument'', ''dataLocation'', ''localDataLocation'', ''path'']
          = Some (PStr ''out/report.pdf'')"
    using rule[THEN conjunct2, rule_format, of 1]
    by (auto simp: evidence_item_def field report_pdf_def)
  ultimately show ?thesis using docs readable run by blast
qed

text \<open>
  C10: for every analysis result with at least one evidence item, calling
  \<open>build_evidence_payloads\<close> with an empty document sequence raises ZeroDivisionError
  (the first turn of the loop computes \<open>0 % 0\<close>) instead of returning a payload list.
\<close>

theorem build_evidence_payloads_no_documents:
  assumes "py_get (data result) ''evidence'' = Inr (PList (item # rest))"
  shows "build_evidence_payloads plat result [] cfg = Inl ZeroDivisionError"
  using assms by (simp add: build_evidence_payloads_def py_or_def evidence_payload_def)

theorem build_evidence_payloads_no_documents_witness:
  "py_get (data (result_of_items [evidence_item ''a'' (PStr []) (PStr ''Encrypted at rest'')
                                     (PStr [])])) ''evidence''
     = Inr (PList [evidence_item ''a'' (PStr []) (PStr ''Encrypted at rest'') (PStr [])])
   \<and> build_evidence_payloads sample_platform
        (result_of_items [evidence_item ''a'' (PStr []) (PStr ''Encrypted at rest'') (PStr [])])
        [] sample_config
      = Inl ZeroDivisionError"
proof -
  have ev: "py_get (data (result_of_items [evidence_item ''a'' (PStr [])
                                              (PStr ''Encrypted at rest'') (PStr [])])) ''evidence''
     = Inr (PList [evidence_item ''a'' (PStr []) (PStr ''Encrypted at rest'') (PStr [])])"
    by (simp add: result_of_items_def py_get_def dict_get_def)
  from build_evidence_payloads_no_documents[OF ev, of sample_platform sample_config] ev
  show ?thesis by simp
qed

subsection \<open>The store client\<close>


text \<open>The kinds of outcome of the token request leave no outcome out.\<close>

lemma token_outcomes_exhaustive:
  "token_request_rejected outcome \<or> token_response_unreadable outcome
   \<or> (\<exists>response kvs. outcome = Response response \<and> status_code response < 400
         \<and> response_json response = Some (PDict kvs)
         \<and> truthy (dict_get kvs ''access_token''))"
proof (cases outcome)
  case (HTTPError exc)
  then show ?thesis by (simp add: token_request_rejected_def)
next
  case (Response response)
  show ?thesis
  proof (cases "response_json response")
    case None
    with Response show ?thesis
      by (simp add: token_request_rejected_def token_response_unreadable_def)
  next
    case (Some v)
    with Response show ?thesis
      by (cases v) (auto simp: token_request_rejected_def token_response_unreadable_def)
  qed
qed





text \<open>The scenario of the spec, evaluated: the token endpoint answers 401.\<close>

lemma send_evidence_unauthorized:
  "send_evidence sample_platform remote_unauthorized (new_client sample_config) (PDict [])
     = (Inl (EvidenceStoreError ''OAuth token request failed: 401 unauthorized''),
        \<lparr>config = sample_config, token = PNone,
         requests = [PostForm ''http://localhost:8080/v1/auth/token''
                       [(''grant_type'', ''client_credentials'')] (''clouditor'', ''clouditor'')]\<rparr>)"
  by (simp add: send_evidence_def get_token_def post_def new_client_def remote_unauthorized_def
        token_request_def sample_config_def str_int_def digits_of.simps)

lemma send_evidence_accepted:
  "send_evidence sample_platform remote_accepting (new_client sample_config) (PDict [])
     = (Inr (PDict []),
        \<lparr>config = sample_config, token = PStr ''t0k3n'',
         requests = [PostForm ''http://localhost:8080/v1/auth/token''
                       [(''grant_type'', ''client_credentials'')] (''clouditor'', ''clouditor''),
                     PostJson ''http://localhost:8080/v1/evidence_store/evidence'' (PDict [])
                       [(''Authorization'', ''Bearer t0k3n'')]]\<rparr>)"
  by (simp add: send_evidence_def get_token_def post_def new_client_def remote_accepting_def
        token_request_def evidence_request_def evidence_url_def rstrip_chars_def fmt_def
        sample_config_def dict_get_def Let_def)

text \<open>A token response that is a JSON list: \<open>payload.get\<close> raises AttributeError.\<close>

lemma send_evidence_list_body:
  "send_evidence sample_platform remote_list_body (new_client sample_config) (PDict [])
     = (Inl (AttributeError ''list'' ''get''),
        \<lparr>config = sample_config, token = PNone,
         requests = [PostForm ''http://localhost:8080/v1/auth/token''
                       [(''grant_type'', ''client_credentials'')] (''clouditor'', ''clouditor'')]\<rparr>)"
  by (simp add: send_evidence_def get_token_def post_def new_client_def remote_list_body_def
        token_request_def sample_config_def)




end
